theory Spec2Isabelle
  imports Main "HOL-Library.Word"
begin

section \<open>JavaScript values\<close>

text \<open>
  The interception layer of \<^verbatim>\<open>src/app/layout.tsx\<close> (lines 159-217) is plain browser
  JavaScript. A JavaScript string is a sequence of 16-bit code units; a value is one of
  the language's primitive kinds or a reference to an object. Numbers are kept as the 64
  bits of their IEEE-754 encoding, which is all that \<^verbatim>\<open>!url\<close> looks at. A promise is
  represented by how it settles, not by its identity, and so is a thenable (an object
  that is not a promise and has a callable \<^verbatim>\<open>then\<close>): by how a promise resolved with it
  settles. \<open>Object\<close> and \<open>Function\<close> stand for the objects that are not thenable,
  \<open>GlobalObject\<close> for \<^verbatim>\<open>window\<close>, and \<open>Boxed v\<close> for the wrapper object that
  ToObject makes of the primitive \<open>v\<close>.
\<close>

type_synonym code_unit = "16 word"
type_synonym jsstring = "code_unit list"

definition js :: "string \<Rightarrow> jsstring" where
  "js s = map of_char s"

datatype jsval =
    Undefined
  | Null
  | Boolean bool
  | Number "64 word"
  | BigInt int
  | String jsstring
  | Symbol nat
  | Object nat
  | Function nat
  | URIError
  | PromiseFulfilled jsval
  | PromiseRejected jsval
  | PromisePending nat
  | ThenableFulfils jsval
  | ThenableRejects jsval
  | ThenablePending nat
  | GlobalObject
  | Boxed jsval

text \<open>A computation either throws a value (\<open>Inl\<close>) or completes normally (\<open>Inr\<close>).\<close>

type_synonym 'a completion = "jsval + 'a"

definition bind :: "'a completion \<Rightarrow> ('a \<Rightarrow> 'b completion) \<Rightarrow> 'b completion" where
  "bind m f = (case m of Inl e \<Rightarrow> Inl e | Inr x \<Rightarrow> f x)"

definition try_catch :: "'a completion \<Rightarrow> (jsval \<Rightarrow> 'a completion) \<Rightarrow> 'a completion" where
  "try_catch body handler = (case body of Inl e \<Rightarrow> handler e | Inr x \<Rightarrow> Inr x)"

text \<open>The \<^verbatim>\<open>typeof\<close> operator.\<close>

fun typeof :: "jsval \<Rightarrow> jsstring" where
  "typeof Undefined = js ''undefined''"
| "typeof Null = js ''object''"
| "typeof (Boolean b) = js ''boolean''"
| "typeof (Number w) = js ''number''"
| "typeof (BigInt i) = js ''bigint''"
| "typeof (String s) = js ''string''"
| "typeof (Symbol n) = js ''symbol''"
| "typeof (Object n) = js ''object''"
| "typeof (Function n) = js ''function''"
| "typeof URIError = js ''object''"
| "typeof (PromiseFulfilled v) = js ''object''"
| "typeof (PromiseRejected v) = js ''object''"
| "typeof (PromisePending n) = js ''object''"
| "typeof (ThenableFulfils v) = js ''object''"
| "typeof (ThenableRejects v) = js ''object''"
| "typeof (ThenablePending n) = js ''object''"
| "typeof GlobalObject = js ''object''"
| "typeof (Boxed v) = js ''object''"

text \<open>
  ToBoolean, the conversion behind \<^verbatim>\<open>!url\<close>: the falsy values are \<^verbatim>\<open>undefined\<close>,
  \<^verbatim>\<open>null\<close>, \<^verbatim>\<open>false\<close>, \<^verbatim>\<open>+0\<close>, \<^verbatim>\<open>-0\<close>, \<^verbatim>\<open>NaN\<close>, \<^verbatim>\<open>0n\<close> and the empty string.
\<close>

definition is_zero_double :: "64 word \<Rightarrow> bool" where
  "is_zero_double w = (take_bit 63 w = 0)"

definition is_nan_double :: "64 word \<Rightarrow> bool" where
  "is_nan_double w = (take_bit 11 (drop_bit 52 w) = 0x7FF \<and> take_bit 52 w \<noteq> 0)"

fun ToBoolean :: "jsval \<Rightarrow> bool" where
  "ToBoolean Undefined = False"
| "ToBoolean Null = False"
| "ToBoolean (Boolean b) = b"
| "ToBoolean (Number w) = (\<not> is_zero_double w \<and> \<not> is_nan_double w)"
| "ToBoolean (BigInt i) = (i \<noteq> 0)"
| "ToBoolean (String s) = (s \<noteq> [])"
| "ToBoolean v = True"

text \<open>Whether a value is an object, as opposed to a primitive value.\<close>

fun is_object :: "jsval \<Rightarrow> bool" where
  "is_object Undefined = False"
| "is_object Null = False"
| "is_object (Boolean b) = False"
| "is_object (Number w) = False"
| "is_object (BigInt i) = False"
| "is_object (String s) = False"
| "is_object (Symbol n) = False"
| "is_object v = True"

text \<open>
  The \<^verbatim>\<open>this\<close> value of a function that is not in strict mode (ECMA-262,
  OrdinaryCallBindThis): \<^verbatim>\<open>undefined\<close> and \<^verbatim>\<open>null\<close> become the global object, any
  other primitive value its wrapper object, and an object stays what it is.
\<close>

fun OrdinaryCallBindThis :: "jsval \<Rightarrow> jsval" where
  "OrdinaryCallBindThis Undefined = GlobalObject"
| "OrdinaryCallBindThis Null = GlobalObject"
| "OrdinaryCallBindThis (Boolean b) = Boxed (Boolean b)"
| "OrdinaryCallBindThis (Number w) = Boxed (Number w)"
| "OrdinaryCallBindThis (BigInt i) = Boxed (BigInt i)"
| "OrdinaryCallBindThis (String s) = Boxed (String s)"
| "OrdinaryCallBindThis (Symbol n) = Boxed (Symbol n)"
| "OrdinaryCallBindThis v = v"

text \<open>
  How a promise settles that is resolved with a value having a callable \<^verbatim>\<open>then\<close>
  (a promise or a thenable): as that value does. Other values have no such method.
\<close>

fun adopted_settlement :: "jsval \<Rightarrow> jsval option" where
  "adopted_settlement (PromiseFulfilled v) = Some (PromiseFulfilled v)"
| "adopted_settlement (PromiseRejected e) = Some (PromiseRejected e)"
| "adopted_settlement (PromisePending n) = Some (PromisePending n)"
| "adopted_settlement (ThenableFulfils v) = Some (PromiseFulfilled v)"
| "adopted_settlement (ThenableRejects e) = Some (PromiseRejected e)"
| "adopted_settlement (ThenablePending n) = Some (PromisePending n)"
| "adopted_settlement v = None"

section \<open>The built-in \<^verbatim>\<open>decodeURI\<close> and \<^verbatim>\<open>encodeURI\<close>\<close>

text \<open>
  Both are functions of the language (ECMA-262, 19.2.6), modelled after the abstract
  operations \<^verbatim>\<open>Decode\<close> and \<^verbatim>\<open>Encode\<close> given there. Octets and code points are
  natural numbers.
\<close>

definition hex_digit_value :: "code_unit \<Rightarrow> nat option" where
  "hex_digit_value c =
     (let n = unat c in
      if 0x30 \<le> n \<and> n \<le> 0x39 then Some (n - 0x30)
      else if 0x41 \<le> n \<and> n \<le> 0x46 then Some (n - 0x41 + 10)
      else if 0x61 \<le> n \<and> n \<le> 0x66 then Some (n - 0x61 + 10)
      else None)"

definition ParseHexOctet :: "code_unit \<Rightarrow> code_unit \<Rightarrow> nat option" where
  "ParseHexOctet h1 h2 =
     (case hex_digit_value h1 of
        None \<Rightarrow> None
      | Some a \<Rightarrow> (case hex_digit_value h2 of None \<Rightarrow> None | Some b \<Rightarrow> Some (16 * a + b)))"

text \<open>The number of leading 1 bits of an octet.\<close>

definition leading_ones :: "nat \<Rightarrow> nat" where
  "leading_ones b =
     (if b < 0x80 then 0 else if b < 0xC0 then 1 else if b < 0xE0 then 2
      else if b < 0xF0 then 3 else if b < 0xF8 then 4 else 5)"

text \<open>
  The continuation octets of a multi-octet escape: each must again be written
  \<^verbatim>\<open>%XX\<close>. The result is the octets read and the rest of the string.
\<close>

fun continuation_octets :: "nat \<Rightarrow> jsstring \<Rightarrow> (nat list \<times> jsstring) option" where
  "continuation_octets 0 s = Some ([], s)"
| "continuation_octets (Suc j) (p # h1 # h2 # rest) =
     (if p \<noteq> 0x25 then None
      else (case ParseHexOctet h1 h2 of
              None \<Rightarrow> None
            | Some b \<Rightarrow> (case continuation_octets j rest of
                          None \<Rightarrow> None
                        | Some (bs, r) \<Rightarrow> Some (b # bs, r))))"
| "continuation_octets (Suc j) s = None"

definition is_continuation :: "nat \<Rightarrow> bool" where
  "is_continuation b = (0x80 \<le> b \<and> b < 0xC0)"

text \<open>
  The code point of a well-formed UTF-8 sequence of two to four octets: no overlong
  form, no surrogate, nothing above U+10FFFF.
\<close>

fun utf8_code_point :: "nat list \<Rightarrow> nat option" where
  "utf8_code_point [b0, b1] =
     (let v = (b0 mod 0x20) * 0x40 + b1 mod 0x40
      in if is_continuation b1 \<and> 0x80 \<le> v then Some v else None)"
| "utf8_code_point [b0, b1, b2] =
     (let v = (b0 mod 0x10) * 0x1000 + (b1 mod 0x40) * 0x40 + b2 mod 0x40
      in if is_continuation b1 \<and> is_continuation b2 \<and> 0x800 \<le> v
            \<and> \<not> (0xD800 \<le> v \<and> v \<le> 0xDFFF) then Some v else None)"
| "utf8_code_point [b0, b1, b2, b3] =
     (let v = (b0 mod 8) * 0x40000 + (b1 mod 0x40) * 0x1000 + (b2 mod 0x40) * 0x40 + b3 mod 0x40
      in if is_continuation b1 \<and> is_continuation b2 \<and> is_continuation b3
            \<and> 0x10000 \<le> v \<and> v \<le> 0x10FFFF then Some v else None)"
| "utf8_code_point bs = None"

definition UTF16EncodeCodePoint :: "nat \<Rightarrow> jsstring" where
  "UTF16EncodeCodePoint cp =
     (if cp \<le> 0xFFFF then [of_nat cp]
      else [of_nat ((cp - 0x10000) div 0x400 + 0xD800), of_nat ((cp - 0x10000) mod 0x400 + 0xDC00)])"

function Decode :: "jsstring \<Rightarrow> jsstring \<Rightarrow> jsstring completion" where
  "Decode preserveEscapeSet [] = Inr []"
| "Decode preserveEscapeSet (c # s) =
     (if c \<noteq> 0x25 then bind (Decode preserveEscapeSet s) (\<lambda>r. Inr (c # r))
      else (case s of
              h1 # h2 # rest \<Rightarrow>
                (case ParseHexOctet h1 h2 of
                   None \<Rightarrow> Inl URIError
                 | Some b \<Rightarrow>
                     (let n = leading_ones b in
                      if n = 0 then
                        bind (Decode preserveEscapeSet rest)
                          (\<lambda>r. Inr ((if of_nat b \<in> set preserveEscapeSet then [c, h1, h2]
                                      else [of_nat b]) @ r))
                      else if n = 1 \<or> n > 4 then Inl URIError
                      else (case continuation_octets (n - 1) rest of
                              None \<Rightarrow> Inl URIError
                            | Some (octets, rest') \<Rightarrow>
                                (case utf8_code_point (b # octets) of
                                   None \<Rightarrow> Inl URIError
                                 | Some v \<Rightarrow>
                                     bind (Decode preserveEscapeSet rest')
                                       (\<lambda>r. Inr (UTF16EncodeCodePoint v @ r))))))
            | _ \<Rightarrow> Inl URIError))"
  by pat_completeness auto
termination
proof -
  have shorter: "length r \<le> length s" if "continuation_octets j s = Some (bs, r)"
    for j s bs r
    using that
  proof (induction j s arbitrary: bs r rule: continuation_octets.induct)
    case (2 j p h1 h2 rest)
    then show ?case
      by (fastforce split: if_splits option.splits)
  qed simp_all
  show ?thesis
    by (relation "measure (\<lambda>(p, s). length s)") (auto dest!: shorter)
qed

definition uriReserved :: jsstring where
  "uriReserved = js '';/?:@&=+$,''"

definition uriUnescaped :: jsstring where
  "uriUnescaped =
     js ''ABCDEFGHIJKLMNOPQRSTUVWXYZabcdefghijklmnopqrstuvwxyz0123456789_-.!~*'()''"

definition decodeURI :: "jsstring \<Rightarrow> jsstring completion" where
  "decodeURI uri = Decode (uriReserved @ js ''#'') uri"

definition utf8_octets :: "nat \<Rightarrow> nat list" where
  "utf8_octets cp =
     (if cp < 0x80 then [cp]
      else if cp < 0x800 then [0xC0 + cp div 0x40, 0x80 + cp mod 0x40]
      else if cp < 0x10000 then
        [0xE0 + cp div 0x1000, 0x80 + (cp div 0x40) mod 0x40, 0x80 + cp mod 0x40]
      else [0xF0 + cp div 0x40000, 0x80 + (cp div 0x1000) mod 0x40,
            0x80 + (cp div 0x40) mod 0x40, 0x80 + cp mod 0x40])"

definition hex_digit :: "nat \<Rightarrow> code_unit" where
  "hex_digit d = (if d < 10 then of_nat (0x30 + d) else of_nat (0x41 + (d - 10)))"

definition percent_escape :: "nat \<Rightarrow> jsstring" where
  "percent_escape octet = [0x25, hex_digit (octet div 16), hex_digit (octet mod 16)]"

definition is_leading_surrogate :: "code_unit \<Rightarrow> bool" where
  "is_leading_surrogate c = (0xD800 \<le> unat c \<and> unat c \<le> 0xDBFF)"

definition is_trailing_surrogate :: "code_unit \<Rightarrow> bool" where
  "is_trailing_surrogate c = (0xDC00 \<le> unat c \<and> unat c \<le> 0xDFFF)"

definition UTF16SurrogatePairToCodePoint :: "code_unit \<Rightarrow> code_unit \<Rightarrow> nat" where
  "UTF16SurrogatePairToCodePoint lead trail =
     (unat lead - 0xD800) * 0x400 + (unat trail - 0xDC00) + 0x10000"

fun Encode :: "jsstring \<Rightarrow> jsstring \<Rightarrow> jsstring completion" where
  "Encode unescapedSet [] = Inr []"
| "Encode unescapedSet (c # s) =
     (if c \<in> set unescapedSet then bind (Encode unescapedSet s) (\<lambda>r. Inr (c # r))
      else if \<not> is_leading_surrogate c \<and> \<not> is_trailing_surrogate c then
        bind (Encode unescapedSet s)
          (\<lambda>r. Inr (concat (map percent_escape (utf8_octets (unat c))) @ r))
      else if is_trailing_surrogate c then Inl URIError
      else (case s of
              [] \<Rightarrow> Inl URIError
            | d # s' \<Rightarrow>
                if \<not> is_trailing_surrogate d then Inl URIError
                else bind (Encode unescapedSet s')
                       (\<lambda>r. Inr (concat (map percent_escape
                                   (utf8_octets (UTF16SurrogatePairToCodePoint c d))) @ r))))"

definition encodeURI :: "jsstring \<Rightarrow> jsstring completion" where
  "encodeURI uri = Encode (uriUnescaped @ uriReserved @ js ''#'') uri"

section \<open>The URL transform function\<close>

text \<open>
  \<^verbatim>\<open>ChineseS2T.t2s\<close> belongs to an external library loaded from a CDN; it is a
  parameter of the model: any function from strings to strings that may also throw.
\<close>

type_synonym t2s_fun = "jsstring \<Rightarrow> jsstring completion"

text \<open>
  \<^verbatim>\<open>convertUrl\<close>, lines 167-176. Past the guard \<^verbatim>\<open>url\<close> is a string, so the
  ToString conversion that \<^verbatim>\<open>decodeURI\<close> applies to its argument leaves it as it is;
  the last case of the \<open>case\<close> is never reached (lemma \<open>guard_passes_iff\<close>).
\<close>

definition convertUrl :: "t2s_fun \<Rightarrow> jsval \<Rightarrow> jsval completion" where
  "convertUrl t2s url =
     (if \<not> ToBoolean url \<or> typeof url \<noteq> js ''string'' then Inr url
      else try_catch
             (case url of
                String s \<Rightarrow>
                  bind (decodeURI s) (\<lambda>decoded.
                  bind (t2s decoded) (\<lambda>simplified.
                  bind (encodeURI simplified) (\<lambda>encoded.
                  Inr (String encoded))))
              | _ \<Rightarrow> Inr url)
             (\<lambda>e. Inr url))"

text \<open>
  The same function in the words of the specification (section 4.2): pass a non-string
  or empty input through; otherwise decode, transform, encode, and fall back to the
  input when any of the three steps throws.
\<close>

definition convertUrl_spec :: "t2s_fun \<Rightarrow> jsval \<Rightarrow> jsval completion" where
  "convertUrl_spec t2s url =
     (case url of
        String s \<Rightarrow>
          if s = [] then Inr url
          else (case decodeURI s of
                  Inl e \<Rightarrow> Inr url
                | Inr decoded \<Rightarrow>
                    (case t2s decoded of
                       Inl e \<Rightarrow> Inr url
                     | Inr simplified \<Rightarrow>
                         (case encodeURI simplified of
                            Inl e \<Rightarrow> Inr url
                          | Inr encoded \<Rightarrow> Inr (String encoded))))
      | _ \<Rightarrow> Inr url)"

section \<open>The four wrappers\<close>

text \<open>
  A JavaScript function takes its \<^verbatim>\<open>this\<close> value, the list of its arguments and the
  state of the world, and gives a completion and the new state. A parameter with no
  argument at its position is \<^verbatim>\<open>undefined\<close>. In the four definitions of the wrappers
  below \<open>this\<close> is the value that the keyword \<^verbatim>\<open>this\<close> denotes in the wrapper's body.
  The script is a classic inline script with no \<^verbatim>\<open>'use strict'\<close> directive, so its
  functions are not in strict mode: calling one binds \<^verbatim>\<open>this\<close> as \<open>non_strict\<close> says.
\<close>

type_synonym 'w jsfunction = "jsval \<Rightarrow> jsval list \<Rightarrow> 'w \<Rightarrow> jsval completion \<times> 'w"

definition non_strict :: "'w jsfunction \<Rightarrow> 'w jsfunction" where
  "non_strict body this = body (OrdinaryCallBindThis this)"

definition arg :: "jsval list \<Rightarrow> nat \<Rightarrow> jsval" where
  "arg args i = (if i < length args then args ! i else Undefined)"

text \<open>
  An \<^verbatim>\<open>async\<close> function never throws to its caller: it returns a promise, rejected
  with what the body threw or resolved with what the body returned. A promise resolved
  with a promise or a thenable settles as that one does; resolved with any other value,
  it is fulfilled with the value.
\<close>

fun async_completion :: "jsval completion \<Rightarrow> jsval completion" where
  "async_completion (Inl e) = Inr (PromiseRejected e)"
| "async_completion (Inr v) =
     (case adopted_settlement v of
        Some promise \<Rightarrow> Inr promise
      | None \<Rightarrow> Inr (PromiseFulfilled v))"

definition async :: "jsval completion \<times> 'w \<Rightarrow> jsval completion \<times> 'w" where
  "async result = (async_completion (fst result), snd result)"

text \<open>
  Lines 179-185. The assignment \<^verbatim>\<open>args[0] = ...\<close> happens only when \<^verbatim>\<open>args[0]\<close> is a
  string, so the index is in range.
\<close>

definition fetch_wrapper :: "t2s_fun \<Rightarrow> 'w jsfunction \<Rightarrow> 'w jsfunction" where
  "fetch_wrapper t2s originalFetch this args w =
     async
       (if typeof (arg args 0) = js ''string'' then
          (case convertUrl t2s (arg args 0) of
             Inl e \<Rightarrow> (Inl e, w)
           | Inr url \<Rightarrow> originalFetch this (args[0 := url]) w)
        else originalFetch this args w)"

text \<open>Lines 188-194: \<^verbatim>\<open>function(method, url, ...rest)\<close>.\<close>

definition open_wrapper :: "t2s_fun \<Rightarrow> 'w jsfunction \<Rightarrow> 'w jsfunction" where
  "open_wrapper t2s originalOpen this args w =
     (let method = arg args 0; url = arg args 1; rest = drop 2 args in
      if typeof url = js ''string'' then
        (case convertUrl t2s url of
           Inl e \<Rightarrow> (Inl e, w)
         | Inr url' \<Rightarrow> originalOpen this ([method, url'] @ rest) w)
      else originalOpen this ([method, url] @ rest) w)"

text \<open>Lines 197-203 and 205-211: \<^verbatim>\<open>function(state, unused, url)\<close>.\<close>

definition pushState_wrapper :: "t2s_fun \<Rightarrow> 'w jsfunction \<Rightarrow> 'w jsfunction" where
  "pushState_wrapper t2s originalPushState this args w =
     (let state = arg args 0; unused = arg args 1; url = arg args 2 in
      if typeof url = js ''string'' then
        (case convertUrl t2s url of
           Inl e \<Rightarrow> (Inl e, w)
         | Inr url' \<Rightarrow> originalPushState this [state, unused, url'] w)
      else originalPushState this [state, unused, url] w)"

definition replaceState_wrapper :: "t2s_fun \<Rightarrow> 'w jsfunction \<Rightarrow> 'w jsfunction" where
  "replaceState_wrapper t2s originalReplaceState this args w =
     (let state = arg args 0; unused = arg args 1; url = arg args 2 in
      if typeof url = js ''string'' then
        (case convertUrl t2s url of
           Inl e \<Rightarrow> (Inl e, w)
         | Inr url' \<Rightarrow> originalReplaceState this [state, unused, url'] w)
      else originalReplaceState this [state, unused, url] w)"

section \<open>Function values and the browser\<close>

text \<open>
  The functions that the four globals can hold: the browser's own implementation of a
  dispatch point, or one of the wrappers, a closure over the function it captured. The
  browser's implementations are not part of the page: their outcome is a parameter
  (it may depend on the calls made so far), and every call that reaches one of them is
  recorded, with its receiver and its arguments.
\<close>

datatype dispatch_point = Fetch | XhrOpen | PushState | ReplaceState

record call =
  target :: dispatch_point
  receiver :: jsval
  arguments :: "jsval list"

type_synonym trace = "call list"

type_synonym browser = "trace \<Rightarrow> call \<Rightarrow> jsval completion"

datatype fn =
    Native dispatch_point
  | FetchWrapper fn
  | OpenWrapper fn
  | PushStateWrapper fn
  | ReplaceStateWrapper fn

definition native :: "browser \<Rightarrow> dispatch_point \<Rightarrow> trace jsfunction" where
  "native br d this args tr =
     (br tr \<lparr>target = d, receiver = this, arguments = args\<rparr>,
      tr @ [\<lparr>target = d, receiver = this, arguments = args\<rparr>])"

primrec invoke :: "t2s_fun \<Rightarrow> browser \<Rightarrow> fn \<Rightarrow> trace jsfunction" where
  "invoke t2s br (Native d) = native br d"
| "invoke t2s br (FetchWrapper originalFetch) =
     non_strict (fetch_wrapper t2s (invoke t2s br originalFetch))"
| "invoke t2s br (OpenWrapper originalOpen) =
     non_strict (open_wrapper t2s (invoke t2s br originalOpen))"
| "invoke t2s br (PushStateWrapper originalPushState) =
     non_strict (pushState_wrapper t2s (invoke t2s br originalPushState))"
| "invoke t2s br (ReplaceStateWrapper originalReplaceState) =
     non_strict (replaceState_wrapper t2s (invoke t2s br originalReplaceState))"

text \<open>The number of wrappers around the browser's implementation, and that implementation.\<close>

primrec layers :: "fn \<Rightarrow> nat" where
  "layers (Native d) = 0"
| "layers (FetchWrapper f) = Suc (layers f)"
| "layers (OpenWrapper f) = Suc (layers f)"
| "layers (PushStateWrapper f) = Suc (layers f)"
| "layers (ReplaceStateWrapper f) = Suc (layers f)"

primrec innermost :: "fn \<Rightarrow> dispatch_point" where
  "innermost (Native d) = d"
| "innermost (FetchWrapper f) = innermost f"
| "innermost (OpenWrapper f) = innermost f"
| "innermost (PushStateWrapper f) = innermost f"
| "innermost (ReplaceStateWrapper f) = innermost f"

section \<open>The dependency gate and the installer\<close>

text \<open>
  The state of the page that \<^verbatim>\<open>initS2T\<close> (lines 160-214) reads and writes: whether the
  global \<^verbatim>\<open>ChineseS2T\<close> is defined, the four global bindings, the timers that
  \<^verbatim>\<open>setTimeout\<close> has scheduled (callback and delay in milliseconds, oldest first) and
  the lines written by \<^verbatim>\<open>console.log\<close>.
\<close>

datatype callback = InitS2T

record page =
  ChineseS2T_defined :: bool
  window_fetch :: fn
  XMLHttpRequest_open :: fn
  history_pushState :: fn
  history_replaceState :: fn
  timers :: "(callback \<times> nat) list"
  console :: "jsstring list"

definition ready_notice :: jsstring where
  "ready_notice =
     [0xD83D, 0xDE80] @ js '' [KVideo] ''
     @ [0x7D42, 0x6975, 0x5168, 0x5C40, 0x7E41, 0x7C21, 0x8F49, 0x63DB] @ js '' (''
     @ [0x5E95, 0x5C64, 0x6514, 0x622A] @ js '') '' @ [0x5DF2, 0x555F, 0x52D5, 0xFF01]"

definition initS2T :: "page \<Rightarrow> page" where
  "initS2T p =
     (if \<not> ChineseS2T_defined p then p\<lparr>timers := timers p @ [(InitS2T, 100)]\<rparr>
      else p\<lparr>window_fetch := FetchWrapper (window_fetch p),
             XMLHttpRequest_open := OpenWrapper (XMLHttpRequest_open p),
             history_pushState := PushStateWrapper (history_pushState p),
             history_replaceState := ReplaceStateWrapper (history_replaceState p),
             console := console p @ [ready_notice]\<rparr>)"

text \<open>
  What happens to the page after the script has run: a pending timer fires and runs its
  callback, or the library's script finishes loading and defines \<^verbatim>\<open>ChineseS2T\<close>.
\<close>

datatype event = TimerFires | LibraryLoads

fun step :: "page \<Rightarrow> event \<Rightarrow> page" where
  "step p TimerFires =
     (case timers p of
        [] \<Rightarrow> p
      | (InitS2T, delay) # pending \<Rightarrow> initS2T (p\<lparr>timers := pending\<rparr>))"
| "step p LibraryLoads = p\<lparr>ChineseS2T_defined := True\<rparr>"

definition run :: "page \<Rightarrow> event list \<Rightarrow> page" where
  "run p evs = foldl step p evs"

text \<open>The page before the script runs, and the script itself (line 216).\<close>

definition pristine :: "bool \<Rightarrow> page" where
  "pristine loaded =
     \<lparr>ChineseS2T_defined = loaded,
      window_fetch = Native Fetch,
      XMLHttpRequest_open = Native XhrOpen,
      history_pushState = Native PushState,
      history_replaceState = Native ReplaceState,
      timers = [],
      console = []\<rparr>"

definition script :: "page \<Rightarrow> page" where
  "script p = initS2T p"

definition global :: "page \<Rightarrow> dispatch_point \<Rightarrow> fn" where
  "global p d =
     (case d of
        Fetch \<Rightarrow> window_fetch p
      | XhrOpen \<Rightarrow> XMLHttpRequest_open p
      | PushState \<Rightarrow> history_pushState p
      | ReplaceState \<Rightarrow> history_replaceState p)"

section \<open>Sample inputs\<close>

text \<open>
  A transform that maps the traditional characters U+9AD4 and U+9801 to their simplified
  forms U+4F53 and U+9875 and leaves every other code unit alone; the identity transform;
  a browser whose implementations return \<^verbatim>\<open>undefined\<close>; one whose implementations
  throw; and one whose \<^verbatim>\<open>open\<close> throws when it is given fewer than the two arguments
  that its interface requires, and returns \<^verbatim>\<open>undefined\<close> otherwise.
\<close>

definition sample_t2s :: t2s_fun where
  "sample_t2s s =
     Inr (map (\<lambda>c. if c = 0x9AD4 then 0x4F53 else if c = 0x9801 then 0x9875 else c) s)"

definition identity_t2s :: t2s_fun where
  "identity_t2s s = Inr s"

definition quiet_browser :: browser where
  "quiet_browser tr c = Inr Undefined"

definition throwing_browser :: browser where
  "throwing_browser tr c = Inl (Object 0)"

definition arity_checking_browser :: browser where
  "arity_checking_browser tr c =
     (if target c = XhrOpen \<and> length (arguments c) < 2 then Inl (Object 0) else Inr Undefined)"

text \<open>
  The URLs of the two scenarios of section 8 of the specification, before and after the
  transform: \<^verbatim>\<open>/search?q=\<close> followed by U+7E41 U+9AD4 U+5B57, and \<^verbatim>\<open>/\<close> followed by
  U+9801 U+9762.
\<close>

definition search_traditional :: jsstring where
  "search_traditional = js ''/search?q='' @ [0x7E41, 0x9AD4, 0x5B57]"

definition search_simplified :: jsstring where
  "search_simplified = js ''/search?q='' @ [0x7E41, 0x4F53, 0x5B57]"

definition page_traditional :: jsstring where
  "page_traditional = js ''/'' @ [0x9801, 0x9762]"

definition page_simplified :: jsstring where
  "page_simplified = js ''/'' @ [0x9875, 0x9762]"

section \<open>Properties of the URL transform function\<close>

lemma typeof_string_iff: "typeof v = js ''string'' \<longleftrightarrow> (\<exists>s. v = String s)"
  by (cases v) (simp_all add: js_def)

lemma guard_passes_iff:
  "\<not> (\<not> ToBoolean url \<or> typeof url \<noteq> js ''string'') \<longleftrightarrow> (\<exists>s. url = String s \<and> s \<noteq> [])"
  by (cases url) (simp_all add: js_def)

lemma convertUrl_not_string:
  assumes "\<And>s. url \<noteq> String s"
  shows "convertUrl t2s url = Inr url"
  using assms by (simp add: convertUrl_def typeof_string_iff)

lemma convertUrl_empty: "convertUrl t2s (String []) = Inr (String [])"
  by (simp add: convertUrl_def)

lemma convertUrl_nonempty:
  assumes "s \<noteq> []"
  shows "convertUrl t2s (String s) =
           (case decodeURI s of
              Inl e \<Rightarrow> Inr (String s)
            | Inr decoded \<Rightarrow>
                (case t2s decoded of
                   Inl e \<Rightarrow> Inr (String s)
                 | Inr simplified \<Rightarrow>
                     (case encodeURI simplified of
                        Inl e \<Rightarrow> Inr (String s)
                      | Inr encoded \<Rightarrow> Inr (String encoded))))"
  using assms by (simp add: convertUrl_def try_catch_def bind_def split: sum.splits)

lemma convertUrl_string: "\<exists>r. convertUrl t2s (String s) = Inr (String r)"
proof (cases "s = []")
  case True
  then show ?thesis by (simp add: convertUrl_empty)
next
  case False
  then show ?thesis by (simp add: convertUrl_nonempty split: sum.splits)
qed

lemma convertUrl_total: "\<exists>r. convertUrl t2s url = Inr r"
proof (cases "\<exists>s. url = String s")
  case True
  then show ?thesis using convertUrl_string by blast
next
  case False
  then show ?thesis by (simp add: convertUrl_not_string)
qed

subsection \<open>Evaluation at sample inputs\<close>

lemma continuation_octets_numeral:
  "continuation_octets (numeral k) s = continuation_octets (Suc (pred_numeral k)) s"
  by (simp add: numeral_eq_Suc)

lemmas uri_eval = continuation_octets_numeral
  decodeURI_def encodeURI_def js_def uriReserved_def uriUnescaped_def bind_def
  ParseHexOctet_def hex_digit_value_def leading_ones_def is_continuation_def
  UTF16EncodeCodePoint_def is_leading_surrogate_def is_trailing_surrogate_def
  UTF16SurrogatePairToCodePoint_def utf8_octets_def percent_escape_def hex_digit_def

lemma decodeURI_search: "decodeURI search_traditional = Inr search_traditional"
  by (simp add: search_traditional_def uri_eval)

lemma sample_t2s_search: "sample_t2s search_traditional = Inr search_simplified"
  by (simp add: sample_t2s_def search_traditional_def search_simplified_def js_def)

lemma encodeURI_search:
  "encodeURI search_simplified = Inr (js ''/search?q=%E7%B9%81%E4%BD%93%E5%AD%97'')"
  by (simp add: search_simplified_def uri_eval)

lemma convertUrl_search:
  "convertUrl sample_t2s (String search_traditional)
     = Inr (String (js ''/search?q=%E7%B9%81%E4%BD%93%E5%AD%97''))"
proof -
  have "search_traditional \<noteq> []" by (simp add: search_traditional_def)
  then show ?thesis
    by (simp add: convertUrl_nonempty decodeURI_search sample_t2s_search encodeURI_search)
qed

lemma decodeURI_page: "decodeURI page_traditional = Inr page_traditional"
  by (simp add: page_traditional_def uri_eval)

lemma sample_t2s_page: "sample_t2s page_traditional = Inr page_simplified"
  by (simp add: sample_t2s_def page_traditional_def page_simplified_def js_def)

lemma encodeURI_page: "encodeURI page_simplified = Inr (js ''/%E9%A1%B5%E9%9D%A2'')"
  by (simp add: page_simplified_def uri_eval)

lemma convertUrl_page:
  "convertUrl sample_t2s (String page_traditional) = Inr (String (js ''/%E9%A1%B5%E9%9D%A2''))"
proof -
  have "page_traditional \<noteq> []" by (simp add: page_traditional_def)
  then show ?thesis
    by (simp add: convertUrl_nonempty decodeURI_page sample_t2s_page encodeURI_page)
qed

lemma encoded_differs_search: "js ''/search?q=%E7%B9%81%E4%BD%93%E5%AD%97'' \<noteq> search_simplified"
  by (simp add: search_simplified_def js_def)

lemma encoded_differs_page: "js ''/%E9%A1%B5%E9%9D%A2'' \<noteq> page_simplified"
  by (simp add: page_simplified_def js_def)

lemma decodeURI_reserved_escape: "decodeURI (js ''/p?u=a%2Fb'') = Inr (js ''/p?u=a%2Fb'')"
  by (simp add: uri_eval)

lemma encodeURI_reserved_escape: "encodeURI (js ''/p?u=a%2Fb'') = Inr (js ''/p?u=a%252Fb'')"
  by (simp add: uri_eval)

lemma decodeURI_lone_percent: "decodeURI (js ''%'') = Inl URIError"
  by (simp add: uri_eval)

lemma decodeURI_escaped_page: "decodeURI (js ''/%E9%A0%81'') = Inr (js ''/'' @ [0x9801])"
  by (simp add: uri_eval)

lemma encodeURI_escaped_page: "encodeURI (js ''/'' @ [0x9875]) = Inr (js ''/%E9%A1%B5'')"
  by (simp add: uri_eval)

text \<open>
  Claim C1. For every input, \<^verbatim>\<open>convertUrl\<close> does what section 4.2 of the
  specification says: an input that is not a string, or is the empty string, comes back
  unchanged; any other string comes back as \<^verbatim>\<open>encodeURI\<close> of \<^verbatim>\<open>ChineseS2T.t2s\<close> of
  \<^verbatim>\<open>decodeURI\<close> of it, unless one of the three steps throws, in which case the input
  comes back unchanged.
\<close>

theorem convertUrl_refines_spec: "convertUrl t2s url = convertUrl_spec t2s url"
proof (cases url)
  case (String s)
  show ?thesis
  proof (cases "s = []")
    case True
    with String show ?thesis by (simp add: convertUrl_empty convertUrl_spec_def)
  next
    case False
    with String show ?thesis by (simp add: convertUrl_nonempty convertUrl_spec_def)
  qed
qed (simp_all add: convertUrl_not_string convertUrl_spec_def)

text \<open>
  The theorem at three inputs: the search URL of the specification, a lone percent sign
  (which \<^verbatim>\<open>decodeURI\<close> rejects) and \<^verbatim>\<open>null\<close>.
\<close>

theorem convertUrl_refines_spec_witness:
  "convertUrl sample_t2s (String search_traditional)
     = Inr (String (js ''/search?q=%E7%B9%81%E4%BD%93%E5%AD%97''))
   \<and> convertUrl sample_t2s (String (js ''%'')) = Inr (String (js ''%''))
   \<and> convertUrl sample_t2s Null = Inr Null"
proof -
  have "search_traditional \<noteq> []" by (simp add: search_traditional_def)
  then have "convertUrl_spec sample_t2s (String search_traditional)
          = Inr (String (js ''/search?q=%E7%B9%81%E4%BD%93%E5%AD%97''))"
    by (simp add: convertUrl_spec_def decodeURI_search sample_t2s_search encodeURI_search)
  moreover have "js ''%'' \<noteq> []" by (simp add: js_def)
  then have "convertUrl_spec sample_t2s (String (js ''%'')) = Inr (String (js ''%''))"
    by (simp add: convertUrl_spec_def decodeURI_lone_percent)
  moreover have "convertUrl_spec sample_t2s Null = Inr Null"
    by (simp add: convertUrl_spec_def)
  ultimately show ?thesis
    by (simp only: convertUrl_refines_spec)
qed

text \<open>
  Claim C2 says that on a valid URI that the transform leaves alone \<^verbatim>\<open>convertUrl\<close>
  returns the URI unchanged, decoding and encoding being inverse to each other. On
  \<^verbatim>\<open>/p?u=a%2Fb\<close> the code returns another URL: \<^verbatim>\<open>decodeURI\<close> keeps the escape of a
  reserved character (\<^verbatim>\<open>%2F\<close> stays \<^verbatim>\<open>%2F\<close>) and \<^verbatim>\<open>encodeURI\<close> then escapes its
  percent sign, so the escape comes back doubled, as \<^verbatim>\<open>%252F\<close>.
\<close>

theorem convertUrl_doubles_reserved_escape:
  "identity_t2s (js ''/p?u=a%2Fb'') = Inr (js ''/p?u=a%2Fb'')
   \<and> convertUrl identity_t2s (String (js ''/p?u=a%2Fb'')) = Inr (String (js ''/p?u=a%252Fb''))
   \<and> js ''/p?u=a%252Fb'' \<noteq> js ''/p?u=a%2Fb''"
proof -
  have ne: "js ''/p?u=a%2Fb'' \<noteq> []" by (simp add: js_def)
  have "convertUrl identity_t2s (String (js ''/p?u=a%2Fb'')) = Inr (String (js ''/p?u=a%252Fb''))"
    by (simp add: convertUrl_nonempty [OF ne] decodeURI_reserved_escape identity_t2s_def
          encodeURI_reserved_escape)
  moreover have "js ''/p?u=a%252Fb'' \<noteq> js ''/p?u=a%2Fb''" by (simp add: js_def)
  ultimately show ?thesis by (simp add: identity_t2s_def)
qed

text \<open>The theorem read as an inequality: the URL that comes back is not the one given.\<close>

theorem convertUrl_doubles_reserved_escape_witness:
  "convertUrl identity_t2s (String (js ''/p?u=a%2Fb'')) \<noteq> Inr (String (js ''/p?u=a%2Fb''))"
  using convertUrl_doubles_reserved_escape by simp

text \<open>
  Claim C7, as stated, fails: the claim says that the result is never \<^verbatim>\<open>undefined\<close> or
  \<^verbatim>\<open>null\<close> for any input, and the guard of line 168 returns exactly these inputs.
\<close>

theorem convertUrl_returns_undefined_and_null:
  "convertUrl sample_t2s Undefined = Inr Undefined \<and> convertUrl sample_t2s Null = Inr Null"
  by (simp add: convertUrl_def js_def)

text \<open>
  Claim C7, amended. \<^verbatim>\<open>convertUrl\<close> never throws, and its result is the input unchanged
  or the string obtained by decoding, transforming and encoding the input; for a string
  input the result is a string, so neither \<^verbatim>\<open>undefined\<close> nor \<^verbatim>\<open>null\<close>.
\<close>

theorem convertUrl_never_throws:
  "(\<exists>r. convertUrl t2s url = Inr r)
   \<and> (convertUrl t2s url = Inr url
      \<or> (\<exists>s decoded simplified encoded.
            url = String s \<and> decodeURI s = Inr decoded \<and> t2s decoded = Inr simplified
            \<and> encodeURI simplified = Inr encoded
            \<and> convertUrl t2s url = Inr (String encoded)))
   \<and> (\<exists>r. convertUrl t2s (String s) = Inr (String r))
   \<and> convertUrl t2s (String s) \<noteq> Inr Undefined
   \<and> convertUrl t2s (String s) \<noteq> Inr Null"
proof -
  have shape: "convertUrl t2s url = Inr url
      \<or> (\<exists>s decoded simplified encoded.
            url = String s \<and> decodeURI s = Inr decoded \<and> t2s decoded = Inr simplified
            \<and> encodeURI simplified = Inr encoded
            \<and> convertUrl t2s url = Inr (String encoded))"
  proof (cases "\<exists>s. url = String s \<and> s \<noteq> []")
    case True
    then obtain s where s: "url = String s" "s \<noteq> []" by blast
    show ?thesis
      unfolding s(1) convertUrl_nonempty [OF s(2)]
      by (simp split: sum.splits)
  next
    case False
    then have "convertUrl t2s url = Inr url"
      by (cases url) (auto simp: convertUrl_not_string convertUrl_empty)
    then show ?thesis ..
  qed
  obtain r where r: "convertUrl t2s (String s) = Inr (String r)"
    using convertUrl_string by blast
  from r have "convertUrl t2s (String s) \<noteq> Inr Undefined" "convertUrl t2s (String s) \<noteq> Inr Null"
    by simp_all
  with shape r convertUrl_total show ?thesis by blast
qed

theorem convertUrl_never_throws_witness:
  "convertUrl sample_t2s (String (js ''%'')) = Inr (String (js ''%''))"
proof -
  from convertUrl_never_throws [of sample_t2s "String (js ''%'')" "js ''%''"]
  have "convertUrl sample_t2s (String (js ''%'')) = Inr (String (js ''%''))
        \<or> (\<exists>decoded. decodeURI (js ''%'') = Inr decoded)"
    by blast
  then show ?thesis by (simp add: decodeURI_lone_percent)
qed

section \<open>Properties of the wrappers\<close>

lemma arg_Cons_0: "arg (a # rest) 0 = a"
  by (simp add: arg_def)

lemma arg_Nil: "arg [] i = Undefined"
  by (simp add: arg_def)

lemma OrdinaryCallBindThis_object:
  assumes "is_object v"
  shows "OrdinaryCallBindThis v = v"
  using assms by (cases v) simp_all

lemma OrdinaryCallBindThis_primitive:
  assumes "\<not> is_object v" and "v \<noteq> Undefined" and "v \<noteq> Null"
  shows "OrdinaryCallBindThis v = Boxed v"
  using assms by (cases v) simp_all

lemma is_object_OrdinaryCallBindThis: "is_object (OrdinaryCallBindThis v)"
  by (cases v) simp_all

lemma OrdinaryCallBindThis_idem:
  "OrdinaryCallBindThis (OrdinaryCallBindThis v) = OrdinaryCallBindThis v"
  by (simp add: OrdinaryCallBindThis_object is_object_OrdinaryCallBindThis)

lemma convertUrl_not_string_result:
  assumes "convertUrl t2s v = Inr url" and "\<And>s. v \<noteq> String s"
  shows "url = v"
  using assms by (simp add: convertUrl_not_string)

lemma fetch_wrapper_string:
  assumes "convertUrl t2s (String s) = Inr url"
  shows "fetch_wrapper t2s orig this (String s # rest) w = async (orig this (url # rest) w)"
  using assms by (simp add: fetch_wrapper_def arg_Cons_0)

lemma fetch_wrapper_other:
  assumes "\<And>s. a \<noteq> String s"
  shows "fetch_wrapper t2s orig this (a # rest) w = async (orig this (a # rest) w)"
  using assms by (simp add: fetch_wrapper_def arg_Cons_0 typeof_string_iff)

lemma fetch_wrapper_no_argument: "fetch_wrapper t2s orig this [] w = async (orig this [] w)"
  by (simp add: fetch_wrapper_def arg_Nil js_def)

text \<open>
  What each wrapper hands to the function it captured, for every argument list.
  \<^verbatim>\<open>convertUrl\<close> returns a value that is not a string as it is, so its result describes
  the argument at the rewritten position in both branches of the wrapper.
\<close>

lemma fetch_wrapper_delegation:
  assumes "convertUrl t2s (arg args 0) = Inr url"
  shows "fetch_wrapper t2s orig this args w = async (orig this (args[0 := url]) w)"
proof (cases args)
  case Nil
  then show ?thesis by (simp add: fetch_wrapper_no_argument)
next
  case (Cons a rest)
  show ?thesis
  proof (cases "\<exists>s. a = String s")
    case True
    with assms Cons show ?thesis
      by (auto simp: arg_Cons_0 fetch_wrapper_string)
  next
    case False
    with assms Cons have "url = a"
      by (auto simp: arg_Cons_0 dest: convertUrl_not_string_result)
    with False Cons show ?thesis
      by (simp add: fetch_wrapper_other)
  qed
qed

lemma open_wrapper_delegation:
  assumes "convertUrl t2s (arg args 1) = Inr url"
  shows "open_wrapper t2s orig this args w = orig this (arg args 0 # url # drop 2 args) w"
proof (cases "\<exists>s. arg args 1 = String s")
  case True
  with assms show ?thesis
    by (auto simp: open_wrapper_def Let_def typeof_string_iff)
next
  case False
  with assms have "url = arg args 1"
    by (auto dest: convertUrl_not_string_result)
  with False show ?thesis
    by (auto simp: open_wrapper_def Let_def typeof_string_iff)
qed

lemma pushState_wrapper_delegation:
  assumes "convertUrl t2s (arg args 2) = Inr url"
  shows "pushState_wrapper t2s orig this args w = orig this [arg args 0, arg args 1, url] w"
proof (cases "\<exists>s. arg args 2 = String s")
  case True
  with assms show ?thesis
    by (auto simp: pushState_wrapper_def Let_def typeof_string_iff)
next
  case False
  with assms have "url = arg args 2"
    by (auto dest: convertUrl_not_string_result)
  with False show ?thesis
    by (auto simp: pushState_wrapper_def Let_def typeof_string_iff)
qed

lemma replaceState_wrapper_eq: "replaceState_wrapper = pushState_wrapper"
  by (intro ext) (simp add: replaceState_wrapper_def pushState_wrapper_def)

lemma replaceState_wrapper_delegation:
  assumes "convertUrl t2s (arg args 2) = Inr url"
  shows "replaceState_wrapper t2s orig this args w = orig this [arg args 0, arg args 1, url] w"
  unfolding replaceState_wrapper_eq using assms by (rule pushState_wrapper_delegation)

text \<open>
  For a call with the arguments of the signature, the list handed on is the caller's
  list with the URL replaced.
\<close>

lemma open_arguments_signature:
  assumes "2 \<le> length args"
  shows "arg args 0 # url # drop 2 args = args[1 := url]"
proof -
  from assms obtain m u rest where "args = m # u # rest"
    by (cases args; cases "tl args") auto
  then show ?thesis by (simp add: arg_def)
qed

lemma state_arguments_signature:
  assumes "length args = 3"
  shows "[arg args 0, arg args 1, url] = args[2 := url]"
proof -
  from assms obtain state unused u where "args = [state, unused, u]"
    by (cases args; cases "tl args"; cases "tl (tl args)") auto
  then show ?thesis by (simp add: arg_def)
qed

lemma fetch_wrapper_delegates:
  "\<exists>args'. fetch_wrapper t2s orig this args w = async (orig this args' w)"
proof -
  obtain url where "convertUrl t2s (arg args 0) = Inr url"
    using convertUrl_total by blast
  then have "fetch_wrapper t2s orig this args w = async (orig this (args[0 := url]) w)"
    by (rule fetch_wrapper_delegation)
  then show ?thesis ..
qed

lemma open_wrapper_delegates:
  "\<exists>args'. open_wrapper t2s orig this args w = orig this args' w"
proof -
  obtain url where "convertUrl t2s (arg args 1) = Inr url"
    using convertUrl_total by blast
  then have "open_wrapper t2s orig this args w = orig this (arg args 0 # url # drop 2 args) w"
    by (rule open_wrapper_delegation)
  then show ?thesis ..
qed

lemma pushState_wrapper_delegates:
  "\<exists>args'. pushState_wrapper t2s orig this args w = orig this args' w"
proof -
  obtain url where "convertUrl t2s (arg args 2) = Inr url"
    using convertUrl_total by blast
  then have "pushState_wrapper t2s orig this args w = orig this [arg args 0, arg args 1, url] w"
    by (rule pushState_wrapper_delegation)
  then show ?thesis ..
qed

lemma replaceState_wrapper_delegates:
  "\<exists>args'. replaceState_wrapper t2s orig this args w = orig this args' w"
  unfolding replaceState_wrapper_eq by (rule pushState_wrapper_delegates)

text \<open>
  Whatever function a global holds, one call to it reaches the browser's implementation
  once. Under at least one wrapper the receiver that arrives is the \<^verbatim>\<open>this\<close> value that
  the outermost wrapper bound.
\<close>

lemma invoke_reaches_native_once:
  "\<exists>r args'. invoke t2s br f this args tr
       = (r, tr @ [\<lparr>target = innermost f,
                     receiver = (if layers f = 0 then this else OrdinaryCallBindThis this),
                     arguments = args'\<rparr>])"
proof (induction f arbitrary: this args)
  case (Native d)
  show ?case by (simp add: native_def)
next
  case (FetchWrapper f)
  obtain args' where "invoke t2s br (FetchWrapper f) this args tr
      = async (invoke t2s br f (OrdinaryCallBindThis this) args' tr)"
    using fetch_wrapper_delegates [of t2s "invoke t2s br f" "OrdinaryCallBindThis this" args tr]
    by (auto simp: non_strict_def)
  with FetchWrapper [of "OrdinaryCallBindThis this" args'] show ?case
    by (auto simp: async_def OrdinaryCallBindThis_idem)
next
  case (OpenWrapper f)
  obtain args' where "invoke t2s br (OpenWrapper f) this args tr
      = invoke t2s br f (OrdinaryCallBindThis this) args' tr"
    using open_wrapper_delegates [of t2s "invoke t2s br f" "OrdinaryCallBindThis this" args tr]
    by (auto simp: non_strict_def)
  with OpenWrapper [of "OrdinaryCallBindThis this" args'] show ?case
    by (auto simp: OrdinaryCallBindThis_idem)
next
  case (PushStateWrapper f)
  obtain args' where "invoke t2s br (PushStateWrapper f) this args tr
      = invoke t2s br f (OrdinaryCallBindThis this) args' tr"
    using pushState_wrapper_delegates
            [of t2s "invoke t2s br f" "OrdinaryCallBindThis this" args tr]
    by (auto simp: non_strict_def)
  with PushStateWrapper [of "OrdinaryCallBindThis this" args'] show ?case
    by (auto simp: OrdinaryCallBindThis_idem)
next
  case (ReplaceStateWrapper f)
  obtain args' where "invoke t2s br (ReplaceStateWrapper f) this args tr
      = invoke t2s br f (OrdinaryCallBindThis this) args' tr"
    using replaceState_wrapper_delegates
            [of t2s "invoke t2s br f" "OrdinaryCallBindThis this" args tr]
    by (auto simp: non_strict_def)
  with ReplaceStateWrapper [of "OrdinaryCallBindThis this" args'] show ?case
    by (auto simp: OrdinaryCallBindThis_idem)
qed

text \<open>A call to a wrapper that sits directly on the browser's implementation.\<close>

lemma invoke_fetch_native:
  assumes "convertUrl t2s (arg args 0) = Inr url"
  shows "invoke t2s br (FetchWrapper (Native d)) this args tr
           = async (native br d (OrdinaryCallBindThis this) (args[0 := url]) tr)"
  using assms by (simp add: non_strict_def fetch_wrapper_delegation)

lemma invoke_open_native:
  assumes "convertUrl t2s (arg args 1) = Inr url"
  shows "invoke t2s br (OpenWrapper (Native d)) this args tr
           = native br d (OrdinaryCallBindThis this) (arg args 0 # url # drop 2 args) tr"
  using assms by (simp add: non_strict_def open_wrapper_delegation)

lemma invoke_pushState_native:
  assumes "convertUrl t2s (arg args 2) = Inr url"
  shows "invoke t2s br (PushStateWrapper (Native d)) this args tr
           = native br d (OrdinaryCallBindThis this) [arg args 0, arg args 1, url] tr"
  using assms by (simp add: non_strict_def pushState_wrapper_delegation)

lemma invoke_replaceState_native:
  assumes "convertUrl t2s (arg args 2) = Inr url"
  shows "invoke t2s br (ReplaceStateWrapper (Native d)) this args tr
           = native br d (OrdinaryCallBindThis this) [arg args 0, arg args 1, url] tr"
  using assms by (simp add: non_strict_def replaceState_wrapper_delegation)

lemma invoke_fetch_search:
  "invoke sample_t2s br (FetchWrapper (Native Fetch)) this [String search_traditional] tr
     = async (native br Fetch (OrdinaryCallBindThis this)
                [String (js ''/search?q=%E7%B9%81%E4%BD%93%E5%AD%97'')] tr)"
  using invoke_fetch_native [of sample_t2s "[String search_traditional]" _ br Fetch this tr]
  by (simp add: arg_Cons_0 convertUrl_search)

lemma invoke_pushState_page:
  "invoke sample_t2s br (PushStateWrapper (Native PushState)) this
       [Null, String [], String page_traditional] tr
     = native br PushState (OrdinaryCallBindThis this)
         [Null, String [], String (js ''/%E9%A1%B5%E9%9D%A2'')] tr"
  using invoke_pushState_native
          [of sample_t2s "[Null, String [], String page_traditional]" _ br PushState this tr]
  by (simp add: arg_def convertUrl_page)

lemma convertUrl_object: "convertUrl t2s (Object n) = Inr (Object n)"
  by (simp add: convertUrl_not_string)

lemma convertUrl_Undefined: "convertUrl t2s Undefined = Inr Undefined"
  by (simp add: convertUrl_not_string)

lemma global_script_pristine:
  "global (script (pristine True)) Fetch = FetchWrapper (Native Fetch)"
  "global (script (pristine True)) XhrOpen = OpenWrapper (Native XhrOpen)"
  "global (script (pristine True)) PushState = PushStateWrapper (Native PushState)"
  "global (script (pristine True)) ReplaceState = ReplaceStateWrapper (Native ReplaceState)"
  by (simp_all add: global_def script_def initS2T_def pristine_def)

text \<open>
  Claim C3, as stated, fails at its own example. The claim has
  \<^verbatim>\<open>fetch("/search?q=...")\<close> with the traditional text reach the browser's
  \<^verbatim>\<open>fetch\<close> as the same URL with the simplified text. The wrapper passes the result of
  \<^verbatim>\<open>convertUrl\<close>, whose last step is \<^verbatim>\<open>encodeURI\<close>: the browser receives the percent-encoded
  URL \<^verbatim>\<open>/search?q=%E7%B9%81%E4%BD%93%E5%AD%97\<close>.
\<close>

theorem fetch_scenario_not_literal:
  "map arguments (snd (invoke sample_t2s quiet_browser (FetchWrapper (Native Fetch)) Undefined
                         [String search_traditional] []))
     = [[String (js ''/search?q=%E7%B9%81%E4%BD%93%E5%AD%97'')]]
   \<and> String (js ''/search?q=%E7%B9%81%E4%BD%93%E5%AD%97'') \<noteq> String search_simplified"
  by (simp only: invoke_fetch_search) (simp add: async_def native_def encoded_differs_search)

text \<open>
  Claim C3, amended. For every argument list the \<^verbatim>\<open>fetch\<close> wrapper calls the function it
  captured with the same list, except that a first argument that is a string is replaced
  by \<^verbatim>\<open>convertUrl\<close> of it; a first argument that is not a string, and an empty list, go
  through untouched. In the scenario of the specification the browser's \<^verbatim>\<open>fetch\<close> is
  called with the percent-encoded form of the simplified URL.
\<close>

theorem fetch_wrapper_rewrites_first_argument:
  "(convertUrl t2s (String s) = Inr url \<longrightarrow>
      fetch_wrapper t2s orig this (String s # rest) w = async (orig this (url # rest) w))
   \<and> ((\<forall>s. a \<noteq> String s) \<longrightarrow>
      fetch_wrapper t2s orig this (a # rest) w = async (orig this (a # rest) w))
   \<and> fetch_wrapper t2s orig this [] w = async (orig this [] w)
   \<and> snd (invoke sample_t2s br (FetchWrapper (Native Fetch)) this [String search_traditional] tr)
       = tr @ [\<lparr>target = Fetch, receiver = OrdinaryCallBindThis this,
                 arguments = [String (js ''/search?q=%E7%B9%81%E4%BD%93%E5%AD%97'')]\<rparr>]"
proof (intro conjI impI)
  assume "convertUrl t2s (String s) = Inr url"
  then show "fetch_wrapper t2s orig this (String s # rest) w = async (orig this (url # rest) w)"
    by (rule fetch_wrapper_string)
next
  assume "\<forall>s. a \<noteq> String s"
  then show "fetch_wrapper t2s orig this (a # rest) w = async (orig this (a # rest) w)"
    by (intro fetch_wrapper_other) blast
next
  show "fetch_wrapper t2s orig this [] w = async (orig this [] w)"
    by (rule fetch_wrapper_no_argument)
next
  show "snd (invoke sample_t2s br (FetchWrapper (Native Fetch)) this [String search_traditional] tr)
       = tr @ [\<lparr>target = Fetch, receiver = OrdinaryCallBindThis this,
                 arguments = [String (js ''/search?q=%E7%B9%81%E4%BD%93%E5%AD%97'')]\<rparr>]"
    by (simp only: invoke_fetch_search) (simp add: async_def native_def)
qed

text \<open>
  The theorem at a call with a request object and an options object: both reach the
  function that the wrapper captured as they are.
\<close>

theorem fetch_wrapper_rewrites_first_argument_witness:
  "fetch_wrapper sample_t2s (native quiet_browser Fetch) GlobalObject [Object 1, Object 2] []
     = (Inr (PromiseFulfilled Undefined),
        [\<lparr>target = Fetch, receiver = GlobalObject, arguments = [Object 1, Object 2]\<rparr>])"
proof -
  have "\<forall>s. Object 1 \<noteq> String s" by simp
  with fetch_wrapper_rewrites_first_argument
         [of sample_t2s _ _ "native quiet_browser Fetch" GlobalObject "[Object 2]" "[]" "Object 1"]
  have "fetch_wrapper sample_t2s (native quiet_browser Fetch) GlobalObject [Object 1, Object 2] []
        = async (native quiet_browser Fetch GlobalObject [Object 1, Object 2] [])"
    by blast
  then show ?thesis
    by (simp add: async_def native_def quiet_browser_def)
qed

text \<open>
  Claim C4, as stated, fails in two ways. At its own example,
  \<^verbatim>\<open>history.pushState(null, "", url)\<close> with \<^verbatim>\<open>url\<close> the slash followed by U+9801 U+9762
  hands the browser the percent-encoded path \<^verbatim>\<open>/%E9%A1%B5%E9%9D%A2\<close>, not the slash
  followed by U+9875 U+9762. And not every other argument is left untouched: the
  \<^verbatim>\<open>pushState\<close> wrapper names three parameters and passes exactly these, so a fourth
  argument is dropped, and the \<^verbatim>\<open>open\<close> wrapper passes \<^verbatim>\<open>method\<close> and \<^verbatim>\<open>url\<close> even when
  the caller gave only one argument.
\<close>

theorem pushState_scenario_and_arity:
  "map arguments (snd (invoke sample_t2s quiet_browser (PushStateWrapper (Native PushState))
                         (Object 0) [Null, String [], String page_traditional] []))
     = [[Null, String [], String (js ''/%E9%A1%B5%E9%9D%A2'')]]
   \<and> String (js ''/%E9%A1%B5%E9%9D%A2'') \<noteq> String page_simplified
   \<and> map arguments (snd (invoke sample_t2s quiet_browser (PushStateWrapper (Native PushState))
                           (Object 0) [Null, String [], Object 5, Object 6] []))
     = [[Null, String [], Object 5]]
   \<and> map arguments (snd (invoke sample_t2s quiet_browser (OpenWrapper (Native XhrOpen))
                           (Object 7) [String (js ''GET'')] []))
     = [[String (js ''GET''), Undefined]]"
proof -
  have "invoke sample_t2s quiet_browser (PushStateWrapper (Native PushState)) (Object 0)
          [Null, String [], Object 5, Object 6] []
        = native quiet_browser PushState (Object 0) [Null, String [], Object 5] []"
    using invoke_pushState_native
            [of sample_t2s "[Null, String [], Object 5, Object 6]" "Object 5" quiet_browser
                PushState "Object 0" "[]"]
    by (simp add: arg_def convertUrl_object)
  moreover have "invoke sample_t2s quiet_browser (OpenWrapper (Native XhrOpen)) (Object 7)
          [String (js ''GET'')] []
        = native quiet_browser XhrOpen (Object 7) [String (js ''GET''), Undefined] []"
    using invoke_open_native
            [of sample_t2s "[String (js ''GET'')]" Undefined quiet_browser XhrOpen "Object 7" "[]"]
    by (simp add: arg_def convertUrl_Undefined)
  ultimately show ?thesis
    by (simp only: invoke_pushState_page) (simp add: native_def encoded_differs_page)
qed

text \<open>
  Claim C4, amended. For every argument list, the \<^verbatim>\<open>open\<close> wrapper hands the function it
  captured the first argument, \<^verbatim>\<open>convertUrl\<close> of the second, and every further argument;
  the \<^verbatim>\<open>pushState\<close> and \<^verbatim>\<open>replaceState\<close> wrappers hand it exactly the first argument,
  the second, and \<^verbatim>\<open>convertUrl\<close> of the third; an argument that the caller did not give
  is \<^verbatim>\<open>undefined\<close>. \<^verbatim>\<open>convertUrl\<close> leaves a value that is not a string as it is. So for
  a call with at least two arguments to \<^verbatim>\<open>open\<close>, or exactly three to \<^verbatim>\<open>pushState\<close> or
  \<^verbatim>\<open>replaceState\<close>, the list handed on is the caller's list with only the URL replaced,
  and that only when it is a string. In the scenario of the specification the browser's
  \<^verbatim>\<open>pushState\<close> receives the percent-encoded form of the simplified path.
\<close>

theorem wrappers_rewrite_url_argument:
  "(\<exists>url. convertUrl t2s (arg args 1) = Inr url
       \<and> open_wrapper t2s orig this args w = orig this (arg args 0 # url # drop 2 args) w
       \<and> (2 \<le> length args \<longrightarrow> arg args 0 # url # drop 2 args = args[1 := url])
       \<and> ((\<forall>s. arg args 1 \<noteq> String s) \<longrightarrow> url = arg args 1))
   \<and> (\<exists>url. convertUrl t2s (arg args 2) = Inr url
       \<and> pushState_wrapper t2s orig this args w = orig this [arg args 0, arg args 1, url] w
       \<and> replaceState_wrapper t2s orig this args w = orig this [arg args 0, arg args 1, url] w
       \<and> (length args = 3 \<longrightarrow> [arg args 0, arg args 1, url] = args[2 := url])
       \<and> ((\<forall>s. arg args 2 \<noteq> String s) \<longrightarrow> url = arg args 2))
   \<and> snd (invoke sample_t2s br (PushStateWrapper (Native PushState)) this
            [Null, String [], String page_traditional] tr)
       = tr @ [\<lparr>target = PushState, receiver = OrdinaryCallBindThis this,
                 arguments = [Null, String [], String (js ''/%E9%A1%B5%E9%9D%A2'')]\<rparr>]"
proof (intro conjI)
  obtain url where url: "convertUrl t2s (arg args 1) = Inr url"
    using convertUrl_total by blast
  have "(\<forall>s. arg args 1 \<noteq> String s) \<longrightarrow> url = arg args 1"
    using url by (auto dest: convertUrl_not_string_result)
  with url open_wrapper_delegation [OF url, of orig this w] open_arguments_signature [of args url]
  show "\<exists>url. convertUrl t2s (arg args 1) = Inr url
       \<and> open_wrapper t2s orig this args w = orig this (arg args 0 # url # drop 2 args) w
       \<and> (2 \<le> length args \<longrightarrow> arg args 0 # url # drop 2 args = args[1 := url])
       \<and> ((\<forall>s. arg args 1 \<noteq> String s) \<longrightarrow> url = arg args 1)"
    by blast
next
  obtain url where url: "convertUrl t2s (arg args 2) = Inr url"
    using convertUrl_total by blast
  have "(\<forall>s. arg args 2 \<noteq> String s) \<longrightarrow> url = arg args 2"
    using url by (auto dest: convertUrl_not_string_result)
  with url pushState_wrapper_delegation [OF url, of orig this w]
    replaceState_wrapper_delegation [OF url, of orig this w]
    state_arguments_signature [of args url]
  show "\<exists>url. convertUrl t2s (arg args 2) = Inr url
       \<and> pushState_wrapper t2s orig this args w = orig this [arg args 0, arg args 1, url] w
       \<and> replaceState_wrapper t2s orig this args w = orig this [arg args 0, arg args 1, url] w
       \<and> (length args = 3 \<longrightarrow> [arg args 0, arg args 1, url] = args[2 := url])
       \<and> ((\<forall>s. arg args 2 \<noteq> String s) \<longrightarrow> url = arg args 2)"
    by blast
next
  show "snd (invoke sample_t2s br (PushStateWrapper (Native PushState)) this
            [Null, String [], String page_traditional] tr)
       = tr @ [\<lparr>target = PushState, receiver = OrdinaryCallBindThis this,
                 arguments = [Null, String [], String (js ''/%E9%A1%B5%E9%9D%A2'')]\<rparr>]"
    by (simp only: invoke_pushState_page) (simp add: native_def)
qed

text \<open>
  The theorem at \<^verbatim>\<open>xhr.open("GET", url, true)\<close> with the path of the specification's
  scenario: the method and the flag reach the captured function unchanged, the path
  percent-encoded.
\<close>

theorem wrappers_rewrite_url_argument_witness:
  "open_wrapper sample_t2s (native quiet_browser XhrOpen) (Object 7)
       [String (js ''GET''), String page_traditional, Boolean True] []
     = (Inr Undefined,
        [\<lparr>target = XhrOpen, receiver = Object 7,
           arguments = [String (js ''GET''), String (js ''/%E9%A1%B5%E9%9D%A2''), Boolean True]\<rparr>])"
proof -
  from wrappers_rewrite_url_argument
         [THEN conjunct1,
          of sample_t2s "[String (js ''GET''), String page_traditional, Boolean True]"
             "native quiet_browser XhrOpen" "Object 7" "[]"]
  obtain url where
    "convertUrl sample_t2s (arg [String (js ''GET''), String page_traditional, Boolean True] 1)
       = Inr url"
    and "open_wrapper sample_t2s (native quiet_browser XhrOpen) (Object 7)
           [String (js ''GET''), String page_traditional, Boolean True] []
         = native quiet_browser XhrOpen (Object 7)
             (arg [String (js ''GET''), String page_traditional, Boolean True] 0 # url
              # drop 2 [String (js ''GET''), String page_traditional, Boolean True]) []"
    by blast
  then show ?thesis
    by (simp add: arg_def convertUrl_page native_def quiet_browser_def)
qed

text \<open>
  Claim C5, as stated, fails in one respect: the argument list that the captured function
  receives is not always the caller's (possibly transformed) list. The \<^verbatim>\<open>replaceState\<close>
  wrapper (like the \<^verbatim>\<open>pushState\<close> wrapper) names three parameters and passes exactly
  these, so a fourth argument never reaches the original.
\<close>

theorem replaceState_drops_fourth_argument:
  "invoke sample_t2s quiet_browser (ReplaceStateWrapper (Native ReplaceState)) (Object 0)
       [Null, String [], Object 5, Object 6] []
     = (Inr Undefined,
        [\<lparr>target = ReplaceState, receiver = Object 0,
           arguments = [Null, String [], Object 5]\<rparr>])"
  using invoke_replaceState_native
          [of sample_t2s "[Null, String [], Object 5, Object 6]" "Object 5" quiet_browser
              ReplaceState "Object 0" "[]"]
  by (simp add: arg_def convertUrl_object native_def quiet_browser_def)

text \<open>
  Claim C5, amended. Each of the four wrappers, whatever function it captured and on
  every path through its body, calls that function exactly once and does nothing else:
  what the wrapper returns or throws and the state it leaves are those of that one call
  (for \<^verbatim>\<open>fetch\<close>, wrapped in a promise). The call has the wrapper's \<^verbatim>\<open>this\<close> value and
  these arguments: for \<^verbatim>\<open>fetch\<close> the caller's list with \<^verbatim>\<open>convertUrl\<close> of the first
  argument in its place; for \<^verbatim>\<open>open\<close> the first argument, \<^verbatim>\<open>convertUrl\<close> of the second
  and all further arguments; for \<^verbatim>\<open>pushState\<close> and \<^verbatim>\<open>replaceState\<close> the first argument,
  the second and \<^verbatim>\<open>convertUrl\<close> of the third, and nothing more. On the page that the
  script has patched, a call to any of the four globals therefore adds exactly one call
  of the browser's implementation to the trace.
\<close>

theorem wrappers_delegate_exactly_once:
  "(\<exists>url. convertUrl t2s (arg args 0) = Inr url
       \<and> fetch_wrapper t2s orig this args w = async (orig this (args[0 := url]) w)
       \<and> snd (invoke t2s br (global (script (pristine True)) Fetch) this args tr)
           = tr @ [\<lparr>target = Fetch, receiver = OrdinaryCallBindThis this,
                     arguments = args[0 := url]\<rparr>])
   \<and> (\<exists>url. convertUrl t2s (arg args 1) = Inr url
       \<and> open_wrapper t2s orig this args w = orig this (arg args 0 # url # drop 2 args) w
       \<and> snd (invoke t2s br (global (script (pristine True)) XhrOpen) this args tr)
           = tr @ [\<lparr>target = XhrOpen, receiver = OrdinaryCallBindThis this,
                     arguments = arg args 0 # url # drop 2 args\<rparr>])
   \<and> (\<exists>url. convertUrl t2s (arg args 2) = Inr url
       \<and> pushState_wrapper t2s orig this args w = orig this [arg args 0, arg args 1, url] w
       \<and> replaceState_wrapper t2s orig this args w = orig this [arg args 0, arg args 1, url] w
       \<and> snd (invoke t2s br (global (script (pristine True)) PushState) this args tr)
           = tr @ [\<lparr>target = PushState, receiver = OrdinaryCallBindThis this,
                     arguments = [arg args 0, arg args 1, url]\<rparr>]
       \<and> snd (invoke t2s br (global (script (pristine True)) ReplaceState) this args tr)
           = tr @ [\<lparr>target = ReplaceState, receiver = OrdinaryCallBindThis this,
                     arguments = [arg args 0, arg args 1, url]\<rparr>])"
proof (intro conjI)
  obtain url where url: "convertUrl t2s (arg args 0) = Inr url"
    using convertUrl_total by blast
  have "snd (invoke t2s br (global (script (pristine True)) Fetch) this args tr)
           = tr @ [\<lparr>target = Fetch, receiver = OrdinaryCallBindThis this,
                     arguments = args[0 := url]\<rparr>]"
    by (simp only: global_script_pristine invoke_fetch_native [OF url])
       (simp add: async_def native_def)
  with url fetch_wrapper_delegation [OF url, of orig this w]
  show "\<exists>url. convertUrl t2s (arg args 0) = Inr url
       \<and> fetch_wrapper t2s orig this args w = async (orig this (args[0 := url]) w)
       \<and> snd (invoke t2s br (global (script (pristine True)) Fetch) this args tr)
           = tr @ [\<lparr>target = Fetch, receiver = OrdinaryCallBindThis this,
                     arguments = args[0 := url]\<rparr>]"
    by blast
next
  obtain url where url: "convertUrl t2s (arg args 1) = Inr url"
    using convertUrl_total by blast
  have "snd (invoke t2s br (global (script (pristine True)) XhrOpen) this args tr)
           = tr @ [\<lparr>target = XhrOpen, receiver = OrdinaryCallBindThis this,
                     arguments = arg args 0 # url # drop 2 args\<rparr>]"
    by (simp only: global_script_pristine invoke_open_native [OF url])
       (simp add: native_def)
  with url open_wrapper_delegation [OF url, of orig this w]
  show "\<exists>url. convertUrl t2s (arg args 1) = Inr url
       \<and> open_wrapper t2s orig this args w = orig this (arg args 0 # url # drop 2 args) w
       \<and> snd (invoke t2s br (global (script (pristine True)) XhrOpen) this args tr)
           = tr @ [\<lparr>target = XhrOpen, receiver = OrdinaryCallBindThis this,
                     arguments = arg args 0 # url # drop 2 args\<rparr>]"
    by blast
next
  obtain url where url: "convertUrl t2s (arg args 2) = Inr url"
    using convertUrl_total by blast
  have p: "snd (invoke t2s br (global (script (pristine True)) PushState) this args tr)
           = tr @ [\<lparr>target = PushState, receiver = OrdinaryCallBindThis this,
                     arguments = [arg args 0, arg args 1, url]\<rparr>]"
    by (simp only: global_script_pristine invoke_pushState_native [OF url])
       (simp add: native_def)
  have r: "snd (invoke t2s br (global (script (pristine True)) ReplaceState) this args tr)
           = tr @ [\<lparr>target = ReplaceState, receiver = OrdinaryCallBindThis this,
                     arguments = [arg args 0, arg args 1, url]\<rparr>]"
    by (simp only: global_script_pristine invoke_replaceState_native [OF url])
       (simp add: native_def)
  from url p r pushState_wrapper_delegation [OF url, of orig this w]
    replaceState_wrapper_delegation [OF url, of orig this w]
  show "\<exists>url. convertUrl t2s (arg args 2) = Inr url
       \<and> pushState_wrapper t2s orig this args w = orig this [arg args 0, arg args 1, url] w
       \<and> replaceState_wrapper t2s orig this args w = orig this [arg args 0, arg args 1, url] w
       \<and> snd (invoke t2s br (global (script (pristine True)) PushState) this args tr)
           = tr @ [\<lparr>target = PushState, receiver = OrdinaryCallBindThis this,
                     arguments = [arg args 0, arg args 1, url]\<rparr>]
       \<and> snd (invoke t2s br (global (script (pristine True)) ReplaceState) this args tr)
           = tr @ [\<lparr>target = ReplaceState, receiver = OrdinaryCallBindThis this,
                     arguments = [arg args 0, arg args 1, url]\<rparr>]"
    by blast
qed

text \<open>
  The theorem at \<^verbatim>\<open>xhr.open()\<close> with no argument on a browser whose implementations throw:
  the trace, empty before the call, holds one call afterwards, with \<^verbatim>\<open>undefined\<close> for
  \<^verbatim>\<open>method\<close> and \<^verbatim>\<open>url\<close>.
\<close>

theorem wrappers_delegate_exactly_once_witness:
  "snd (invoke sample_t2s throwing_browser (global (script (pristine True)) XhrOpen)
          (Object 7) [] [])
     = [\<lparr>target = XhrOpen, receiver = Object 7, arguments = [Undefined, Undefined]\<rparr>]"
proof -
  from wrappers_delegate_exactly_once
         [THEN conjunct2, THEN conjunct1,
          of sample_t2s "[]" "native throwing_browser XhrOpen" "Object 7" "[]"
             throwing_browser "[]"]
  obtain url where "convertUrl sample_t2s (arg [] 1) = Inr url"
    and "snd (invoke sample_t2s throwing_browser (global (script (pristine True)) XhrOpen)
               (Object 7) [] [])
         = [] @ [\<lparr>target = XhrOpen, receiver = OrdinaryCallBindThis (Object 7),
                   arguments = arg [] 0 # url # drop 2 []\<rparr>]"
    by blast
  then show ?thesis
    by (simp add: arg_Nil convertUrl_Undefined)
qed

text \<open>
  Claim C6, as stated, fails in two ways. The \<^verbatim>\<open>fetch\<close> wrapper is an \<^verbatim>\<open>async\<close>
  function: when the function it captured throws, the wrapper does not throw but returns
  a rejected promise. And the \<^verbatim>\<open>open\<close> wrapper always passes \<^verbatim>\<open>method\<close> and \<^verbatim>\<open>url\<close>:
  \<^verbatim>\<open>xhr.open("GET")\<close>, which a browser that insists on two arguments rejects, is handed
  on as \<^verbatim>\<open>open("GET", undefined)\<close> and succeeds.
\<close>

theorem fetch_wrapper_turns_throw_into_rejection:
  "fst (invoke sample_t2s throwing_browser (Native Fetch) Undefined [Object 1] [])
     = Inl (Object 0)
   \<and> fst (invoke sample_t2s throwing_browser (FetchWrapper (Native Fetch)) Undefined
            [Object 1] [])
     = Inr (PromiseRejected (Object 0))
   \<and> fst (invoke sample_t2s arity_checking_browser (Native XhrOpen) (Object 7)
            [String (js ''GET'')] [])
     = Inl (Object 0)
   \<and> fst (invoke sample_t2s arity_checking_browser (OpenWrapper (Native XhrOpen)) (Object 7)
            [String (js ''GET'')] [])
     = Inr Undefined"
proof -
  have "invoke sample_t2s throwing_browser (FetchWrapper (Native Fetch)) Undefined [Object 1] []
      = async (native throwing_browser Fetch GlobalObject [Object 1] [])"
    using invoke_fetch_native
            [of sample_t2s "[Object 1]" "Object 1" throwing_browser Fetch Undefined "[]"]
    by (simp add: arg_def convertUrl_object)
  moreover have "invoke sample_t2s arity_checking_browser (OpenWrapper (Native XhrOpen))
        (Object 7) [String (js ''GET'')] []
      = native arity_checking_browser XhrOpen (Object 7) [String (js ''GET''), Undefined] []"
    using invoke_open_native
            [of sample_t2s "[String (js ''GET'')]" Undefined arity_checking_browser XhrOpen
                "Object 7" "[]"]
    by (simp add: arg_def convertUrl_Undefined)
  ultimately show ?thesis
    by (simp add: async_def native_def throwing_browser_def arity_checking_browser_def)
qed

text \<open>
  Claim C6, amended. The \<^verbatim>\<open>open\<close>, \<^verbatim>\<open>pushState\<close> and \<^verbatim>\<open>replaceState\<close> wrappers return
  what the browser's implementation returns for the call they hand on, and throw what it
  throws: they never change the outcome of that call. That call has the wrapper's
  \<^verbatim>\<open>this\<close> value and differs from the caller's only in the URL when the caller gave at
  least two arguments to \<^verbatim>\<open>open\<close>, or exactly three to \<^verbatim>\<open>pushState\<close> or
  \<^verbatim>\<open>replaceState\<close>. The \<^verbatim>\<open>fetch\<close> wrapper returns a promise: one that settles as the
  promise or thenable does that the browser's \<^verbatim>\<open>fetch\<close> returned, one rejected with what
  it threw, or one fulfilled with the value it returned when that has no \<^verbatim>\<open>then\<close>
  method.
\<close>

theorem wrappers_propagate_outcome:
  "(\<exists>url. convertUrl t2s (arg args 1) = Inr url
       \<and> fst (invoke t2s br (OpenWrapper (Native d)) this args tr)
           = br tr \<lparr>target = d, receiver = OrdinaryCallBindThis this,
                     arguments = arg args 0 # url # drop 2 args\<rparr>
       \<and> (2 \<le> length args \<longrightarrow> arg args 0 # url # drop 2 args = args[1 := url]))
   \<and> (\<exists>url. convertUrl t2s (arg args 2) = Inr url
       \<and> fst (invoke t2s br (PushStateWrapper (Native d)) this args tr)
           = br tr \<lparr>target = d, receiver = OrdinaryCallBindThis this,
                     arguments = [arg args 0, arg args 1, url]\<rparr>
       \<and> fst (invoke t2s br (ReplaceStateWrapper (Native d)) this args tr)
           = br tr \<lparr>target = d, receiver = OrdinaryCallBindThis this,
                     arguments = [arg args 0, arg args 1, url]\<rparr>
       \<and> (length args = 3 \<longrightarrow> [arg args 0, arg args 1, url] = args[2 := url]))
   \<and> (\<exists>url. convertUrl t2s (arg args 0) = Inr url
       \<and> fst (invoke t2s br (FetchWrapper (Native d)) this args tr)
           = async_completion
               (br tr \<lparr>target = d, receiver = OrdinaryCallBindThis this,
                        arguments = args[0 := url]\<rparr>))
   \<and> async_completion (Inl e) = Inr (PromiseRejected e)
   \<and> (adopted_settlement v = Some promise \<longrightarrow> async_completion (Inr v) = Inr promise)
   \<and> (adopted_settlement v = None \<longrightarrow> async_completion (Inr v) = Inr (PromiseFulfilled v))
   \<and> adopted_settlement (PromiseFulfilled v) = Some (PromiseFulfilled v)
   \<and> adopted_settlement (PromiseRejected v) = Some (PromiseRejected v)
   \<and> adopted_settlement (PromisePending n) = Some (PromisePending n)
   \<and> adopted_settlement (ThenableFulfils v) = Some (PromiseFulfilled v)
   \<and> adopted_settlement (ThenableRejects v) = Some (PromiseRejected v)
   \<and> adopted_settlement (ThenablePending n) = Some (PromisePending n)"
proof -
  obtain u1 where u1: "convertUrl t2s (arg args 1) = Inr u1"
    using convertUrl_total by blast
  obtain u2 where u2: "convertUrl t2s (arg args 2) = Inr u2"
    using convertUrl_total by blast
  obtain u0 where u0: "convertUrl t2s (arg args 0) = Inr u0"
    using convertUrl_total by blast
  have o: "fst (invoke t2s br (OpenWrapper (Native d)) this args tr)
           = br tr \<lparr>target = d, receiver = OrdinaryCallBindThis this,
                     arguments = arg args 0 # u1 # drop 2 args\<rparr>"
    by (simp only: invoke_open_native [OF u1]) (simp add: native_def)
  have p: "fst (invoke t2s br (PushStateWrapper (Native d)) this args tr)
           = br tr \<lparr>target = d, receiver = OrdinaryCallBindThis this,
                     arguments = [arg args 0, arg args 1, u2]\<rparr>"
    by (simp only: invoke_pushState_native [OF u2]) (simp add: native_def)
  have r: "fst (invoke t2s br (ReplaceStateWrapper (Native d)) this args tr)
           = br tr \<lparr>target = d, receiver = OrdinaryCallBindThis this,
                     arguments = [arg args 0, arg args 1, u2]\<rparr>"
    by (simp only: invoke_replaceState_native [OF u2]) (simp add: native_def)
  have f: "fst (invoke t2s br (FetchWrapper (Native d)) this args tr)
           = async_completion
               (br tr \<lparr>target = d, receiver = OrdinaryCallBindThis this,
                        arguments = args[0 := u0]\<rparr>)"
    by (simp only: invoke_fetch_native [OF u0]) (simp add: native_def async_def)
  have a: "\<exists>url. convertUrl t2s (arg args 1) = Inr url
       \<and> fst (invoke t2s br (OpenWrapper (Native d)) this args tr)
           = br tr \<lparr>target = d, receiver = OrdinaryCallBindThis this,
                     arguments = arg args 0 # url # drop 2 args\<rparr>
       \<and> (2 \<le> length args \<longrightarrow> arg args 0 # url # drop 2 args = args[1 := url])"
    using u1 o open_arguments_signature [of args u1] by blast
  have b: "\<exists>url. convertUrl t2s (arg args 2) = Inr url
       \<and> fst (invoke t2s br (PushStateWrapper (Native d)) this args tr)
           = br tr \<lparr>target = d, receiver = OrdinaryCallBindThis this,
                     arguments = [arg args 0, arg args 1, url]\<rparr>
       \<and> fst (invoke t2s br (ReplaceStateWrapper (Native d)) this args tr)
           = br tr \<lparr>target = d, receiver = OrdinaryCallBindThis this,
                     arguments = [arg args 0, arg args 1, url]\<rparr>
       \<and> (length args = 3 \<longrightarrow> [arg args 0, arg args 1, url] = args[2 := url])"
    using u2 p r state_arguments_signature [of args u2] by blast
  have c: "\<exists>url. convertUrl t2s (arg args 0) = Inr url
       \<and> fst (invoke t2s br (FetchWrapper (Native d)) this args tr)
           = async_completion
               (br tr \<lparr>target = d, receiver = OrdinaryCallBindThis this,
                        arguments = args[0 := url]\<rparr>)"
    using u0 f by blast
  have "async_completion (Inl e) = Inr (PromiseRejected e)"
    and "adopted_settlement v = Some promise \<longrightarrow> async_completion (Inr v) = Inr promise"
    and "adopted_settlement v = None \<longrightarrow> async_completion (Inr v) = Inr (PromiseFulfilled v)"
    by simp_all
  with a b c show ?thesis
    by (intro conjI) simp_all
qed

text \<open>
  The theorem at \<^verbatim>\<open>history.replaceState(null, "")\<close> on a browser whose implementations
  throw: the wrapper throws the same value.
\<close>

theorem wrappers_propagate_outcome_witness:
  "fst (invoke sample_t2s throwing_browser (ReplaceStateWrapper (Native ReplaceState))
          (Object 0) [Null, String []] []) = Inl (Object 0)"
  using wrappers_propagate_outcome
          [THEN conjunct2, THEN conjunct1,
           of sample_t2s "[Null, String []]" throwing_browser ReplaceState "Object 0" "[]"]
  by (auto simp: throwing_browser_def)

text \<open>
  Claim C10, as stated, fails: the wrappers are functions of a script that is not in
  strict mode, so their \<^verbatim>\<open>this\<close> is not always the receiver they were called with. A
  plain \<^verbatim>\<open>fetch(request)\<close> calls the wrapper with receiver \<^verbatim>\<open>undefined\<close>; the browser's
  \<^verbatim>\<open>fetch\<close> then gets the global object as its receiver, where the unpatched page hands
  it \<^verbatim>\<open>undefined\<close>.
\<close>

theorem plain_fetch_receiver_is_global_object:
  "map receiver (snd (invoke sample_t2s quiet_browser (Native Fetch) Undefined [Object 1] []))
     = [Undefined]
   \<and> map receiver (snd (invoke sample_t2s quiet_browser (FetchWrapper (Native Fetch)) Undefined
                          [Object 1] []))
     = [GlobalObject]"
proof -
  have "invoke sample_t2s quiet_browser (FetchWrapper (Native Fetch)) Undefined [Object 1] []
      = async (native quiet_browser Fetch GlobalObject [Object 1] [])"
    using invoke_fetch_native
            [of sample_t2s "[Object 1]" "Object 1" quiet_browser Fetch Undefined "[]"]
    by (simp add: arg_def convertUrl_object)
  then show ?thesis
    by (simp add: async_def native_def)
qed

text \<open>
  Claim C10, amended. Each wrapper calls the function it captured with its own \<^verbatim>\<open>this\<close>
  value (\<^verbatim>\<open>apply(this, args)\<close>, \<^verbatim>\<open>call(this, ...)\<close>). That value is the receiver the
  wrapper was called with when the receiver is an object, as it is for
  \<^verbatim>\<open>xhr.open(...)\<close>, \<^verbatim>\<open>history.pushState(...)\<close> and \<^verbatim>\<open>window.fetch(...)\<close>; it is the global
  object when the receiver is \<^verbatim>\<open>undefined\<close> or \<^verbatim>\<open>null\<close>, as for a plain \<^verbatim>\<open>fetch(...)\<close>,
  and the wrapper object of any other primitive receiver. So through any number of
  wrappers the browser's implementation gets the receiver of the call when that is an
  object, and what the outermost wrapper bound otherwise.
\<close>

theorem wrappers_pass_bound_receiver:
  "(\<exists>args'. fetch_wrapper t2s orig this args w = async (orig this args' w))
   \<and> (\<exists>args'. open_wrapper t2s orig this args w = orig this args' w)
   \<and> (\<exists>args'. pushState_wrapper t2s orig this args w = orig this args' w)
   \<and> (\<exists>args'. replaceState_wrapper t2s orig this args w = orig this args' w)
   \<and> map receiver (snd (invoke t2s br f this args tr))
       = map receiver tr @ [if layers f = 0 then this else OrdinaryCallBindThis this]
   \<and> (is_object this \<longrightarrow> OrdinaryCallBindThis this = this)
   \<and> OrdinaryCallBindThis Undefined = GlobalObject
   \<and> OrdinaryCallBindThis Null = GlobalObject
   \<and> (\<not> is_object this \<and> this \<noteq> Undefined \<and> this \<noteq> Null \<longrightarrow>
        OrdinaryCallBindThis this = Boxed this)"
proof -
  obtain r args' where
    "invoke t2s br f this args tr
       = (r, tr @ [\<lparr>target = innermost f,
                     receiver = (if layers f = 0 then this else OrdinaryCallBindThis this),
                     arguments = args'\<rparr>])"
    using invoke_reaches_native_once by blast
  then have "map receiver (snd (invoke t2s br f this args tr))
       = map receiver tr @ [if layers f = 0 then this else OrdinaryCallBindThis this]"
    by simp
  moreover have "is_object this \<longrightarrow> OrdinaryCallBindThis this = this"
    by (simp add: OrdinaryCallBindThis_object)
  moreover have "\<not> is_object this \<and> this \<noteq> Undefined \<and> this \<noteq> Null \<longrightarrow>
        OrdinaryCallBindThis this = Boxed this"
    by (simp add: OrdinaryCallBindThis_primitive)
  ultimately show ?thesis
    by (intro conjI fetch_wrapper_delegates open_wrapper_delegates pushState_wrapper_delegates
          replaceState_wrapper_delegates) simp_all
qed

text \<open>The theorem at \<^verbatim>\<open>xhr.open("GET", "/")\<close> on the patched page, \<^verbatim>\<open>xhr\<close> being object 7.\<close>

theorem wrappers_pass_bound_receiver_witness:
  "map receiver (snd (invoke sample_t2s quiet_browser (global (script (pristine True)) XhrOpen)
                        (Object 7) [String (js ''GET''), String (js ''/'')] []))
     = [Object 7]"
proof -
  have "is_object (Object 7)" by simp
  with wrappers_pass_bound_receiver
         [of sample_t2s "native quiet_browser XhrOpen" "Object 7"
             "[String (js ''GET''), String (js ''/'')]" "[]" quiet_browser
             "global (script (pristine True)) XhrOpen" "[]"]
  show ?thesis
    by (simp add: global_script_pristine)
qed

section \<open>Properties of the gate and the installer\<close>

lemma initS2T_defined:
  assumes "ChineseS2T_defined p"
  shows "ChineseS2T_defined (initS2T p)"
    and "global (initS2T p) Fetch = FetchWrapper (global p Fetch)"
    and "global (initS2T p) XhrOpen = OpenWrapper (global p XhrOpen)"
    and "global (initS2T p) PushState = PushStateWrapper (global p PushState)"
    and "global (initS2T p) ReplaceState = ReplaceStateWrapper (global p ReplaceState)"
    and "timers (initS2T p) = timers p"
  using assms by (simp_all add: initS2T_def global_def)

lemma initS2T_layers:
  assumes "ChineseS2T_defined p"
  shows "layers (global (initS2T p) d) = Suc (layers (global p d))"
    and "innermost (global (initS2T p) d) = innermost (global p d)"
  using assms by (cases d; simp add: initS2T_defined)+

lemma funpow_initS2T_defined:
  assumes "ChineseS2T_defined p"
  shows "ChineseS2T_defined ((initS2T ^^ n) p)"
  using assms by (induction n) (simp_all add: initS2T_defined)

lemma funpow_initS2T_layers:
  assumes "ChineseS2T_defined p"
  shows "layers (global ((initS2T ^^ n) p) d) = layers (global p d) + n
         \<and> innermost (global ((initS2T ^^ n) p) d) = innermost (global p d)"
  using assms
  by (induction n) (simp_all add: initS2T_layers funpow_initS2T_defined)

lemma global_pristine: "global (pristine loaded) d = Native d"
  by (cases d) (simp_all add: global_def pristine_def)

text \<open>
  Claim C8, as stated, fails: nothing in \<^verbatim>\<open>initS2T\<close> records that the wrappers are
  installed, so a second run of its success path captures the wrappers of the first run
  and wraps them again.
\<close>

theorem second_run_wraps_again:
  "window_fetch (initS2T (initS2T (pristine True))) = FetchWrapper (FetchWrapper (Native Fetch))
   \<and> XMLHttpRequest_open (initS2T (initS2T (pristine True)))
       = OpenWrapper (OpenWrapper (Native XhrOpen))
   \<and> history_pushState (initS2T (initS2T (pristine True)))
       = PushStateWrapper (PushStateWrapper (Native PushState))
   \<and> history_replaceState (initS2T (initS2T (pristine True)))
       = ReplaceStateWrapper (ReplaceStateWrapper (Native ReplaceState))"
  by (simp add: initS2T_def pristine_def)

text \<open>
  Claim C8, amended. Each run of the success path of the gate adds one wrapper to each of
  the four dispatch points, around the function that was there. However many runs there
  were, one call to a dispatch point still reaches the browser's own implementation
  exactly once, with the \<^verbatim>\<open>this\<close> value that the outermost wrapper bound.
\<close>

theorem repeated_install_delegates_once:
  "(ChineseS2T_defined p \<longrightarrow>
      layers (global ((initS2T ^^ n) p) d) = layers (global p d) + n
      \<and> innermost (global ((initS2T ^^ n) p) d) = innermost (global p d))
   \<and> (\<exists>r args'. invoke t2s br (global ((initS2T ^^ n) (pristine True)) d) this args tr
          = (r, tr @ [\<lparr>target = d,
                        receiver = (if n = 0 then this else OrdinaryCallBindThis this),
                        arguments = args'\<rparr>]))"
proof -
  have "ChineseS2T_defined (pristine True)" by (simp add: pristine_def)
  then have "innermost (global ((initS2T ^^ n) (pristine True)) d) = d"
    and "layers (global ((initS2T ^^ n) (pristine True)) d) = n"
    by (simp_all add: funpow_initS2T_layers global_pristine)
  with invoke_reaches_native_once
         [of t2s br "global ((initS2T ^^ n) (pristine True)) d" this args tr]
  have "\<exists>r args'. invoke t2s br (global ((initS2T ^^ n) (pristine True)) d) this args tr
          = (r, tr @ [\<lparr>target = d,
                        receiver = (if n = 0 then this else OrdinaryCallBindThis this),
                        arguments = args'\<rparr>])"
    by simp
  then show ?thesis
    using funpow_initS2T_layers [of p n d] by blast
qed

text \<open>The theorem after two runs, at \<^verbatim>\<open>fetch\<close> with a request object.\<close>

theorem repeated_install_delegates_once_witness:
  "layers (global ((initS2T ^^ 2) (pristine True)) Fetch) = 2
   \<and> length (snd (invoke sample_t2s quiet_browser (global ((initS2T ^^ 2) (pristine True)) Fetch)
                     Undefined [Object 1] [])) = 1"
proof -
  have d: "ChineseS2T_defined (pristine True)" by (simp add: pristine_def)
  from repeated_install_delegates_once
         [of "pristine True" 2 Fetch sample_t2s quiet_browser Undefined "[Object 1]" "[]"] d
  have "layers (global ((initS2T ^^ 2) (pristine True)) Fetch)
          = layers (global (pristine True) Fetch) + 2"
    and "\<exists>r args'. invoke sample_t2s quiet_browser (global ((initS2T ^^ 2) (pristine True)) Fetch)
            Undefined [Object 1] []
          = (r, [] @ [\<lparr>target = Fetch,
                        receiver = (if (2::nat) = 0 then Undefined
                                    else OrdinaryCallBindThis Undefined),
                        arguments = args'\<rparr>])"
    by blast+
  then show ?thesis by (auto simp: global_pristine)
qed

lemma polling_page_idle:
  "step ((pristine False)\<lparr>timers := [(InitS2T, 100)]\<rparr>) TimerFires
     = (pristine False)\<lparr>timers := [(InitS2T, 100)]\<rparr>"
  by (simp add: initS2T_def pristine_def)

lemma not_LibraryLoads: "LibraryLoads \<noteq> e \<longleftrightarrow> e = TimerFires"
  by (cases e) simp_all

lemma run_append: "run p (evs @ evs') = run (run p evs) evs'"
  by (simp add: run_def)

lemma run_Cons: "run p (e # evs) = run (step p e) evs"
  by (simp add: run_def)

lemma run_polling:
  assumes "LibraryLoads \<notin> set evs"
  shows "run ((pristine False)\<lparr>timers := [(InitS2T, 100)]\<rparr>) evs
           = (pristine False)\<lparr>timers := [(InitS2T, 100)]\<rparr>"
  using assms
proof (induction evs)
  case Nil
  show ?case by (simp add: run_def)
next
  case (Cons e evs)
  then have e: "e = TimerFires" and rest: "LibraryLoads \<notin> set evs"
    by (simp_all add: not_LibraryLoads)
  have "run ((pristine False)\<lparr>timers := [(InitS2T, 100)]\<rparr>) (e # evs)
          = run ((pristine False)\<lparr>timers := [(InitS2T, 100)]\<rparr>) evs"
    by (simp only: run_Cons e polling_page_idle)
  with Cons.IH [OF rest] show ?case by simp
qed

lemma script_pristine_False:
  "script (pristine False) = (pristine False)\<lparr>timers := [(InitS2T, 100)]\<rparr>"
  by (simp add: script_def initS2T_def pristine_def)

lemma script_pristine_True:
  "script (pristine True)
     = \<lparr>ChineseS2T_defined = True,
        window_fetch = FetchWrapper (Native Fetch),
        XMLHttpRequest_open = OpenWrapper (Native XhrOpen),
        history_pushState = PushStateWrapper (Native PushState),
        history_replaceState = ReplaceStateWrapper (Native ReplaceState),
        timers = [],
        console = [ready_notice]\<rparr>"
  by (simp add: script_def initS2T_def pristine_def)

lemma load_then_fire:
  "step (step ((pristine False)\<lparr>timers := [(InitS2T, 100)]\<rparr>) LibraryLoads) TimerFires
     = script (pristine True)"
  by (simp add: script_pristine_True) (simp add: initS2T_def pristine_def)

lemma patched_page_stable: "step (script (pristine True)) e = script (pristine True)"
  by (cases e) (simp_all add: script_pristine_True)

lemma run_patched: "run (script (pristine True)) evs = script (pristine True)"
  unfolding run_def by (induction evs) (simp_all add: patched_page_stable)

text \<open>
  Claim C9. As long as the library has not defined \<^verbatim>\<open>ChineseS2T\<close>, every run of
  \<^verbatim>\<open>initS2T\<close> schedules the next one 100 ms later and changes nothing else: after any
  number of timer events the four globals are the browser's own functions and one timer
  is pending. Once the symbol is defined, the next run of \<^verbatim>\<open>initS2T\<close> installs all four
  wrappers in one step, writes the notice and schedules nothing: no timer is pending, and
  no later event changes the page. When the symbol is defined from the start, the script
  itself does so.
\<close>

theorem gate_polls_until_library_is_defined:
  "(LibraryLoads \<notin> set evs \<longrightarrow>
      run (script (pristine False)) evs = (pristine False)\<lparr>timers := [(InitS2T, 100)]\<rparr>)
   \<and> (LibraryLoads \<notin> set evs \<longrightarrow>
      run (script (pristine False)) (evs @ LibraryLoads # TimerFires # later)
        = script (pristine True))
   \<and> run (script (pristine True)) later = script (pristine True)
   \<and> script (pristine True)
       = \<lparr>ChineseS2T_defined = True,
          window_fetch = FetchWrapper (Native Fetch),
          XMLHttpRequest_open = OpenWrapper (Native XhrOpen),
          history_pushState = PushStateWrapper (Native PushState),
          history_replaceState = ReplaceStateWrapper (Native ReplaceState),
          timers = [],
          console = [ready_notice]\<rparr>"
proof (intro conjI impI)
  assume "LibraryLoads \<notin> set evs"
  then show "run (script (pristine False)) evs = (pristine False)\<lparr>timers := [(InitS2T, 100)]\<rparr>"
    by (simp add: script_pristine_False run_polling)
next
  assume "LibraryLoads \<notin> set evs"
  then have "run (script (pristine False)) evs = (pristine False)\<lparr>timers := [(InitS2T, 100)]\<rparr>"
    by (simp add: script_pristine_False run_polling)
  then show "run (script (pristine False)) (evs @ LibraryLoads # TimerFires # later)
        = script (pristine True)"
    by (simp only: run_append run_Cons load_then_fire run_patched)
next
  show "run (script (pristine True)) later = script (pristine True)"
    by (rule run_patched)
next
  show "script (pristine True)
       = \<lparr>ChineseS2T_defined = True,
          window_fetch = FetchWrapper (Native Fetch),
          XMLHttpRequest_open = OpenWrapper (Native XhrOpen),
          history_pushState = PushStateWrapper (Native PushState),
          history_replaceState = ReplaceStateWrapper (Native ReplaceState),
          timers = [],
          console = [ready_notice]\<rparr>"
    by (rule script_pristine_True)
qed

text \<open>
  The theorem at three polls without the library, and at two polls, the library's arrival
  and a third poll.
\<close>

theorem gate_polls_until_library_is_defined_witness:
  "global (run (script (pristine False)) [TimerFires, TimerFires, TimerFires]) Fetch = Native Fetch
   \<and> timers (run (script (pristine False)) [TimerFires, TimerFires, TimerFires])
       = [(InitS2T, 100)]
   \<and> global (run (script (pristine False)) [TimerFires, TimerFires, LibraryLoads, TimerFires])
        Fetch = FetchWrapper (Native Fetch)
   \<and> timers (run (script (pristine False)) [TimerFires, TimerFires, LibraryLoads, TimerFires])
       = []"
proof -
  have a: "LibraryLoads \<notin> set [TimerFires, TimerFires, TimerFires]" by simp
  have b: "LibraryLoads \<notin> set [TimerFires, TimerFires]" by simp
  from gate_polls_until_library_is_defined [of "[TimerFires, TimerFires, TimerFires]" "[]"] a
  have 1: "run (script (pristine False)) [TimerFires, TimerFires, TimerFires]
          = (pristine False)\<lparr>timers := [(InitS2T, 100)]\<rparr>"
    by blast
  from gate_polls_until_library_is_defined [of "[TimerFires, TimerFires]" "[]"] b
  have 2: "run (script (pristine False)) ([TimerFires, TimerFires] @ [LibraryLoads, TimerFires])
          = script (pristine True)"
    by blast
  from 2 have 3: "run (script (pristine False)) [TimerFires, TimerFires, LibraryLoads, TimerFires]
          = script (pristine True)"
    by simp
  have 4: "global ((pristine False)\<lparr>timers := [(InitS2T, 100)]\<rparr>) Fetch = Native Fetch"
    "timers ((pristine False)\<lparr>timers := [(InitS2T, 100)]\<rparr>) = [(InitS2T, 100)]"
    by (simp_all add: global_def pristine_def)
  have 5: "global (script (pristine True)) Fetch = FetchWrapper (Native Fetch)"
    "timers (script (pristine True)) = []"
    by (simp_all add: script_pristine_True global_def)
  show ?thesis
    unfolding 1 3 using 4 5 by simp
qed

end
